theory Spec2Isabelle
  imports Complex_Main
begin

section \<open>Energy readings, spike detection and alerting\<close>

text \<open>
  A shallow embedding of the energy controller: \<^verbatim>\<open>addEnergyReading\<close>,
  \<^verbatim>\<open>getEnergyReadings\<close> and the helper \<^verbatim>\<open>checkForPowerSpike\<close>.

  Conventions of the embedding.
  \<^item> A JavaScript number is an IEEE double. The embedding does not fix the arithmetic of
    doubles: numbers are the values of a type \<open>'n\<close>, and the operations of the engine on
    them (literals, \<^verbatim>\<open>+\<close>, \<^verbatim>\<open>*\<close>, \<^verbatim>\<open>/\<close>, \<^verbatim>\<open>>\<close>, the value a number
    stands for) are a parameter of every function that computes with numbers. What is
    proved holds for every such arithmetic, so for the rounding, the infinities and the
    NaN of the doubles as well.
  \<^item> The MongoDB collections, the console and the calls of the notification service make
    up one explicit state, the \<open>world\<close>; every controller function takes the world and
    returns the new one.
  \<^item> Every awaited call can reject. Which calls reject, and with which error message, is
    part of the environment \<open>env\<close> of one request, together with the clock.
    A rejected call is the value \<open>Inl msg\<close>.
\<close>

subsection \<open>Documents\<close>

type_synonym ObjectId = nat
type_synonym Date = int

text \<open>
  What a number stands for, and the arithmetic of the engine: the number of a literal (or
  of the length of an array), the three operations and the comparison that the controller
  uses, the value of a number, and \<^verbatim>\<open>ToString\<close> on the finite numbers from
  \<open>10^21\<close> on, by their value.
\<close>

datatype js_value = Finite real | NaN | PlusInfinity | MinusInfinity

record 'n engine =
  num_lit :: "real \<Rightarrow> 'n"
  num_add :: "'n \<Rightarrow> 'n \<Rightarrow> 'n"
  num_mul :: "'n \<Rightarrow> 'n \<Rightarrow> 'n"
  num_div :: "'n \<Rightarrow> 'n \<Rightarrow> 'n"
  num_gt :: "'n \<Rightarrow> 'n \<Rightarrow> bool"
  num_value :: "'n \<Rightarrow> js_value"
  num_ToString :: "real \<Rightarrow> string"

record Device =
  d_userId :: ObjectId
  d_deviceId :: string

record 'n EnergyReading =
  r_deviceId :: string
  r_current :: 'n
  r_voltage :: 'n
  r_temperature :: 'n
  r_power :: 'n
  r_userId :: ObjectId
  r_timestamp :: Date

record 'n Metadata =
  currentPower :: 'n
  averagePower :: 'n
  threshold :: 'n

record 'n Alert =
  a_userId :: ObjectId
  a_deviceId :: string
  message :: string
  alertType :: string
  severity :: string
  metadata :: "'n Metadata"

text \<open>A field of a user document that is absent (\<^verbatim>\<open>undefined\<close>) is \<open>None\<close>.\<close>

record User =
  u_id :: ObjectId
  email :: "string option"
  fcmToken :: "string option"

text \<open>The argument object of \<^verbatim>\<open>sendEnergyAlert\<close>.\<close>

record 'n EnergyAlert =
  ea_email :: "string option"
  ea_fcmToken :: "string option"
  deviceName :: string
  ea_alertType :: string
  ea_message :: string
  energyData :: "'n Metadata"

subsection \<open>The world and the environment of a request\<close>

record 'n world =
  devices :: "Device list"
  energyReadings :: "'n EnergyReading list"
  alerts :: "'n Alert list"
  users :: "User list"
  notifications :: "'n EnergyAlert list"
  console :: "string list"

text \<open>
  \<open>notifications\<close> lists the calls of \<^verbatim>\<open>sendEnergyAlert\<close> in order, whether
  they were delivered or not; \<open>console\<close> lists the lines written by
  \<^verbatim>\<open>console.log\<close> and \<^verbatim>\<open>console.error\<close>. Collections are kept in
  insertion order.
\<close>

record env =
  now :: Date
  Device_findOne_rejects :: "string option"
  EnergyReading_create_rejects :: "string option"
  EnergyReading_find_rejects :: "string option"
  EnergyReading_countDocuments_rejects :: "string option"
  Alert_create_rejects :: "string option"
  User_findById_rejects :: "string option"
  sendEnergyAlert_rejects :: "string option"

definition console_write :: "string \<Rightarrow> 'n world \<Rightarrow> 'n world" where
  "console_write line w = w\<lparr>console := console w @ [line]\<rparr>"

subsection \<open>The collections\<close>

text \<open>\<^verbatim>\<open>Device.findOne({ deviceId })\<close>: the first matching device, or null.\<close>

definition Device_findOne :: "env \<Rightarrow> 'n world \<Rightarrow> string \<Rightarrow> string + Device option" where
  "Device_findOne e w deviceId =
     (case Device_findOne_rejects e of
        Some msg \<Rightarrow> Inl msg
      | None \<Rightarrow> Inr (find (\<lambda>d. d_deviceId d = deviceId) (devices w)))"

text \<open>
  Modelled from the spec: the schema of \<^verbatim>\<open>models/EnergyReading\<close> is not among
  the sources. The controller passes no timestamp to \<^verbatim>\<open>EnergyReading.create\<close>
  and sorts by \<^verbatim>\<open>timestamp\<close>, and the spec's store ``assigns identity and capturedAt
  if absent'': the created document carries the time of its creation.
\<close>

definition EnergyReading_create ::
  "env \<Rightarrow> 'n world \<Rightarrow> string \<Rightarrow> 'n \<Rightarrow> 'n \<Rightarrow> 'n \<Rightarrow> 'n \<Rightarrow> ObjectId
     \<Rightarrow> string + ('n EnergyReading \<times> 'n world)" where
  "EnergyReading_create e w deviceId current voltage temperature power' userId =
     (case EnergyReading_create_rejects e of
        Some msg \<Rightarrow> Inl msg
      | None \<Rightarrow>
          (let energyReading =
                 \<lparr>r_deviceId = deviceId, r_current = current, r_voltage = voltage,
                  r_temperature = temperature, r_power = power', r_userId = userId,
                  r_timestamp = now e\<rparr>
           in Inr (energyReading, w\<lparr>energyReadings := energyReadings w @ [energyReading]\<rparr>)))"

text \<open>
  \<^verbatim>\<open>EnergyReading.find({ deviceId }).sort({ timestamp: -1 })\<close> with the options
  \<^verbatim>\<open>limit\<close> and \<^verbatim>\<open>skip\<close>. The query sorts, then skips, then limits,
  in whatever order the options were set. As MongoDB does: a limit of 0 is no limit, a
  negative limit counts as its absolute value, and a negative skip is rejected. Documents
  with equal timestamps stay in insertion order (MongoDB leaves their order open).
\<close>

definition newest_first :: "'n EnergyReading list \<Rightarrow> 'n EnergyReading list" where
  "newest_first rs = sort_key (\<lambda>r. - r_timestamp r) rs"

definition of_device :: "string \<Rightarrow> 'n EnergyReading list \<Rightarrow> 'n EnergyReading list" where
  "of_device deviceId rs = filter (\<lambda>r. r_deviceId r = deviceId) rs"

definition apply_limit :: "int option \<Rightarrow> 'a list \<Rightarrow> 'a list" where
  "apply_limit lmt xs =
     (case lmt of
        None \<Rightarrow> xs
      | Some n \<Rightarrow> if n = 0 then xs else take (nat \<bar>n\<bar>) xs)"

definition EnergyReading_find ::
  "env \<Rightarrow> 'n world \<Rightarrow> string \<Rightarrow> int option \<Rightarrow> int \<Rightarrow> string + 'n EnergyReading list" where
  "EnergyReading_find e w deviceId lmt skip =
     (case EnergyReading_find_rejects e of
        Some msg \<Rightarrow> Inl msg
      | None \<Rightarrow>
          if skip < 0 then Inl ''Skip value must be non-negative''
          else Inr (apply_limit lmt
                      (drop (nat skip) (newest_first (of_device deviceId (energyReadings w))))))"

definition EnergyReading_countDocuments :: "env \<Rightarrow> 'n world \<Rightarrow> string \<Rightarrow> string + nat" where
  "EnergyReading_countDocuments e w deviceId =
     (case EnergyReading_countDocuments_rejects e of
        Some msg \<Rightarrow> Inl msg
      | None \<Rightarrow> Inr (length (of_device deviceId (energyReadings w))))"

definition Alert_create :: "env \<Rightarrow> 'n world \<Rightarrow> 'n Alert \<Rightarrow> string + ('n Alert \<times> 'n world)" where
  "Alert_create e w a =
     (case Alert_create_rejects e of
        Some msg \<Rightarrow> Inl msg
      | None \<Rightarrow> Inr (a, w\<lparr>alerts := alerts w @ [a]\<rparr>))"

definition User_findById :: "env \<Rightarrow> 'n world \<Rightarrow> ObjectId \<Rightarrow> string + User option" where
  "User_findById e w userId =
     (case User_findById_rejects e of
        Some msg \<Rightarrow> Inl msg
      | None \<Rightarrow> Inr (find (\<lambda>u. u_id u = userId) (users w)))"

text \<open>
  Modelled from the spec: \<^verbatim>\<open>utils/notificationService\<close> is not among the sources.
  The gateway's \<^verbatim>\<open>send\<close> either delivers or fails with a delivery error; the
  world records the call either way.
\<close>

definition sendEnergyAlert :: "env \<Rightarrow> 'n world \<Rightarrow> 'n EnergyAlert \<Rightarrow> string option \<times> 'n world" where
  "sendEnergyAlert e w n =
     (sendEnergyAlert_rejects e, w\<lparr>notifications := notifications w @ [n]\<rparr>)"

subsection \<open>Number formatting\<close>

text \<open>
  \<^verbatim>\<open>Number.prototype.toFixed(f)\<close> as ECMAScript defines it for
  \<open>0 \<le> f \<le> 100\<close>. A number that is not finite gives the text of
  \<^verbatim>\<open>ToString\<close>. A finite number gives, for its value \<open>x\<close>: a sign, then either the
  digits of the integer \<open>n\<close> for which \<open>n / 10^f\<close> is nearest to \<open>x\<close> (the larger one
  at a tie) with a point before the last \<open>f\<close> of them, or, from \<open>10^21\<close> on, the
  exponential notation of \<^verbatim>\<open>ToString\<close>, which is the engine's.
\<close>

definition digit :: "nat \<Rightarrow> char" where
  "digit d = ''0123456789'' ! d"

fun decimal :: "nat \<Rightarrow> string" where
  "decimal n = (if n < 10 then [digit n] else decimal (n div 10) @ [digit (n mod 10)])"

declare decimal.simps [simp del]

definition toFixed :: "'n engine \<Rightarrow> 'n \<Rightarrow> nat \<Rightarrow> string" where
  "toFixed A x0 f =
     (case num_value A x0 of
        NaN \<Rightarrow> ''NaN''
      | PlusInfinity \<Rightarrow> ''Infinity''
      | MinusInfinity \<Rightarrow> ''-Infinity''
      | Finite v \<Rightarrow>
          (let s = (if v < 0 then ''-'' else []);
               x = (if v < 0 then - v else v)
           in if x \<ge> 10 ^ 21 then s @ num_ToString A x
              else
                (let n = nat \<lfloor>x * 10 ^ f + 1 / 2\<rfloor>;
                     m = (if n = 0 then ''0'' else decimal n)
                 in if f \<noteq> 0 then
                      (let k = length m;
                           m' = (if k \<le> f then replicate (f + 1 - k) (CHR ''0'') @ m else m);
                           k' = (if k \<le> f then f + 1 else k)
                       in s @ take (k' - f) m' @ ''.'' @ drop (k' - f) m')
                    else s @ m)))"

subsection \<open>The spike check\<close>

text \<open>A JavaScript string is truthy when it is present and not empty.\<close>

definition truthy :: "string option \<Rightarrow> bool" where
  "truthy v = (case v of None \<Rightarrow> False | Some s \<Rightarrow> s \<noteq> [])"

text \<open>
  The body of the \<^verbatim>\<open>try\<close> block of \<^verbatim>\<open>checkForPowerSpike\<close>. It returns
  the message of the error it threw, if it threw one, and the world as it was then:
  what was written before the throw stays written. The sum, the quotient, the product
  and the comparison are the engine's.
\<close>

definition spike_try ::
  "'n engine \<Rightarrow> env \<Rightarrow> 'n world \<Rightarrow> string \<Rightarrow> 'n \<Rightarrow> ObjectId \<Rightarrow> string option \<times> 'n world" where
  "spike_try A e w deviceId currentPower' userId =
     (case EnergyReading_find e w deviceId (Some 10) 0 of
        Inl msg \<Rightarrow> (Some msg, w)
      | Inr recentReadings \<Rightarrow>
          if length recentReadings \<ge> 5 then
            (let averagePower' =
                   num_div A
                     (foldl (\<lambda>sum reading. num_add A sum (r_power reading)) (num_lit A 0)
                        recentReadings)
                     (num_lit A (real (length recentReadings)));
                 threshold' = num_mul A averagePower' (num_lit A (3 / 2))
             in if num_gt A currentPower' threshold' then
                  (case Alert_create e w
                          \<lparr>a_userId = userId, a_deviceId = deviceId,
                           message = ''Power spike detected! Current power: ''
                             @ toFixed A currentPower' 2 @ ''W is 50% above average: ''
                             @ toFixed A averagePower' 2 @ ''W'',
                           alertType = ''power_spike'', severity = ''high'',
                           metadata = \<lparr>currentPower = currentPower',
                             averagePower = averagePower', threshold = threshold'\<rparr>\<rparr> of
                     Inl msg \<Rightarrow> (Some msg, w)
                   | Inr (alert, w1) \<Rightarrow>
                       (case User_findById e w1 userId of
                          Inl msg \<Rightarrow> (Some msg, w1)
                        | Inr None \<Rightarrow> (None, w1)
                        | Inr (Some user) \<Rightarrow>
                            if truthy (email user) \<or> truthy (fcmToken user) then
                              (case sendEnergyAlert e w1
                                      \<lparr>ea_email = email user, ea_fcmToken = fcmToken user,
                                       deviceName = deviceId, ea_alertType = ''Power Spike'',
                                       ea_message = message alert,
                                       energyData = \<lparr>currentPower = currentPower',
                                         averagePower = averagePower',
                                         threshold = threshold'\<rparr>\<rparr> of
                                 (Some err, w2) \<Rightarrow>
                                   (None, console_write
                                      (''Error sending power spike notification: '' @ err) w2)
                               | (None, w2) \<Rightarrow>
                                   (None, console_write ''Power spike notification sent'' w2))
                            else (None, w1)))
                else (None, w))
          else (None, w))"

definition checkForPowerSpike ::
  "'n engine \<Rightarrow> env \<Rightarrow> 'n world \<Rightarrow> string \<Rightarrow> 'n \<Rightarrow> ObjectId \<Rightarrow> 'n world" where
  "checkForPowerSpike A e w deviceId currentPower' userId =
     (case spike_try A e w deviceId currentPower' userId of
        (Some msg, w') \<Rightarrow> console_write (''Power spike check error: '' @ msg) w'
      | (None, w') \<Rightarrow> w')"

subsection \<open>The two endpoints\<close>

datatype 'n body =
    ValidationFailed "string list"
  | Failure string
  | Created "'n EnergyReading"
  | Listing nat nat "'n EnergyReading list"

text \<open>
  The four JSON objects the controller sends: \<^verbatim>\<open>{success: false, errors}\<close>,
  \<^verbatim>\<open>{success: false, message}\<close>, \<^verbatim>\<open>{success: true, energyReading}\<close> and
  \<^verbatim>\<open>{success: true, count, total, readings}\<close>.
\<close>

record 'n response =
  status :: nat
  json :: "'n body"

text \<open>
  An ingestion request: the result of \<^verbatim>\<open>validationResult(req).array()\<close> and
  the fields of the request body.
\<close>

record 'n AddRequest =
  validationErrors :: "string list"
  deviceId :: string
  current :: 'n
  voltage :: 'n
  temperature :: 'n

definition addEnergyReading ::
  "'n engine \<Rightarrow> env \<Rightarrow> 'n world \<Rightarrow> 'n AddRequest \<Rightarrow> 'n response \<times> 'n world" where
  "addEnergyReading A e w req =
     (if validationErrors req \<noteq> [] then
        (\<lparr>status = 400, json = ValidationFailed (validationErrors req)\<rparr>, w)
      else
        (case Device_findOne e w (deviceId req) of
           Inl msg \<Rightarrow>
             (\<lparr>status = 500, json = Failure ''Server error''\<rparr>,
              console_write (''Add energy reading error: '' @ msg) w)
         | Inr None \<Rightarrow> (\<lparr>status = 404, json = Failure ''Device not found''\<rparr>, w)
         | Inr (Some device) \<Rightarrow>
             (let power' = num_mul A (current req) (voltage req)
              in case EnergyReading_create e w (deviceId req) (current req) (voltage req)
                        (temperature req) power' (d_userId device) of
                   Inl msg \<Rightarrow>
                     (\<lparr>status = 500, json = Failure ''Server error''\<rparr>,
                      console_write (''Add energy reading error: '' @ msg) w)
                 | Inr (energyReading, w1) \<Rightarrow>
                     (\<lparr>status = 201, json = Created energyReading\<rparr>,
                      checkForPowerSpike A e w1 (deviceId req) power' (d_userId device)))))"

text \<open>
  A listing request. The query parameters arrive as text; the embedding takes the ones
  that are whole numbers, where \<^verbatim>\<open>parseInt(limit)\<close> and the arithmetic of
  \<^verbatim>\<open>(page - 1) * limit\<close> read the same number. An absent parameter is \<open>None\<close>.
\<close>

record ListRequest =
  params_deviceId :: string
  query_limit :: "int option"
  query_page :: "int option"

definition getEnergyReadings ::
  "env \<Rightarrow> 'n world \<Rightarrow> ListRequest \<Rightarrow> 'n response \<times> 'n world" where
  "getEnergyReadings e w req =
     (let limit = (case query_limit req of None \<Rightarrow> 100 | Some l \<Rightarrow> l);
          page = (case query_page req of None \<Rightarrow> 1 | Some p \<Rightarrow> p);
          skip = (page - 1) * limit
      in case EnergyReading_find e w (params_deviceId req) (Some limit) skip of
           Inl msg \<Rightarrow>
             (\<lparr>status = 500, json = Failure ''Server error''\<rparr>,
              console_write (''Get energy readings error: '' @ msg) w)
         | Inr readings \<Rightarrow>
             (case EnergyReading_countDocuments e w (params_deviceId req) of
                Inl msg \<Rightarrow>
                  (\<lparr>status = 500, json = Failure ''Server error''\<rparr>,
                   console_write (''Get energy readings error: '' @ msg) w)
              | Inr total' \<Rightarrow>
                  (\<lparr>status = 200, json = Listing (length readings) total' readings\<rparr>, w)))"

section \<open>Notions used in the statements\<close>

text \<open>
  What \<^verbatim>\<open>find({ deviceId }).sort({ timestamp: -1 }).limit(10)\<close> returns when it
  does not reject: the window of the spike check.
\<close>

definition recentReadings :: "'n world \<Rightarrow> string \<Rightarrow> 'n EnergyReading list" where
  "recentReadings w d = take 10 (newest_first (of_device d (energyReadings w)))"

text \<open>
  The mean power of a list of readings and the threshold for it, as the spike check
  computes them: the powers are added from the left, starting from 0, the sum is divided
  by the number of readings, and the quotient is multiplied by 1.5, all in the arithmetic
  of the engine.
\<close>

definition average_power :: "'n engine \<Rightarrow> 'n EnergyReading list \<Rightarrow> 'n" where
  "average_power A rs =
     num_div A (foldl (\<lambda>sum reading. num_add A sum (r_power reading)) (num_lit A 0) rs)
       (num_lit A (real (length rs)))"

definition threshold_for :: "'n engine \<Rightarrow> 'n EnergyReading list \<Rightarrow> 'n" where
  "threshold_for A rs = num_mul A (average_power A rs) (num_lit A (3 / 2))"

text \<open>The two tests of the spike check on a window.\<close>

definition is_spike :: "'n engine \<Rightarrow> 'n EnergyReading list \<Rightarrow> 'n \<Rightarrow> bool" where
  "is_spike A rs p = (5 \<le> length rs \<and> num_gt A p (threshold_for A rs))"

text \<open>The document that the spike check hands to \<^verbatim>\<open>Alert.create\<close>.\<close>

definition spike_alert :: "'n engine \<Rightarrow> string \<Rightarrow> ObjectId \<Rightarrow> 'n \<Rightarrow> 'n \<Rightarrow> 'n Alert" where
  "spike_alert A d u p avg =
     \<lparr>a_userId = u, a_deviceId = d,
      message = ''Power spike detected! Current power: '' @ toFixed A p 2
        @ ''W is 50% above average: '' @ toFixed A avg 2 @ ''W'',
      alertType = ''power_spike'', severity = ''high'',
      metadata = \<lparr>currentPower = p, averagePower = avg,
        threshold = num_mul A avg (num_lit A (3 / 2))\<rparr>\<rparr>"

text \<open>
  The part of the \<^verbatim>\<open>try\<close> block that follows \<^verbatim>\<open>Alert.create\<close>: the
  lookup of the user and the notification, with its own \<^verbatim>\<open>try\<close> and
  \<^verbatim>\<open>catch\<close>. (\<open>spike_try_cases\<close> below shows that \<open>spike_try\<close> is this.)
\<close>

definition notify ::
  "env \<Rightarrow> 'n world \<Rightarrow> string \<Rightarrow> ObjectId \<Rightarrow> 'n Alert \<Rightarrow> string option \<times> 'n world" where
  "notify e w1 d u a =
     (case User_findById e w1 u of
        Inl msg \<Rightarrow> (Some msg, w1)
      | Inr None \<Rightarrow> (None, w1)
      | Inr (Some user) \<Rightarrow>
          if truthy (email user) \<or> truthy (fcmToken user) then
            (case sendEnergyAlert e w1
                    \<lparr>ea_email = email user, ea_fcmToken = fcmToken user,
                     deviceName = d, ea_alertType = ''Power Spike'',
                     ea_message = message a,
                     energyData = metadata a\<rparr> of
               (Some err, w2) \<Rightarrow>
                 (None, console_write (''Error sending power spike notification: '' @ err) w2)
             | (None, w2) \<Rightarrow>
                 (None, console_write ''Power spike notification sent'' w2))
          else (None, w1))"

text \<open>The spike check persists an alert: both storage calls succeed and the window spikes.\<close>

definition creates_alert :: "'n engine \<Rightarrow> env \<Rightarrow> 'n world \<Rightarrow> string \<Rightarrow> 'n \<Rightarrow> bool" where
  "creates_alert A e w d p =
     (EnergyReading_find_rejects e = None \<and> Alert_create_rejects e = None
      \<and> is_spike A (recentReadings w d) p)"

text \<open>
  The reading that an ingestion request creates for a device, and the condition under
  which it is created: the request passed validation, the device was found, and the write
  of the reading succeeded.
\<close>

definition new_reading :: "'n engine \<Rightarrow> env \<Rightarrow> 'n AddRequest \<Rightarrow> Device \<Rightarrow> 'n EnergyReading" where
  "new_reading A e req device =
     \<lparr>r_deviceId = deviceId req, r_current = current req, r_voltage = voltage req,
      r_temperature = temperature req, r_power = num_mul A (current req) (voltage req),
      r_userId = d_userId device, r_timestamp = now e\<rparr>"

definition ingested :: "env \<Rightarrow> 'n world \<Rightarrow> 'n AddRequest \<Rightarrow> Device \<Rightarrow> bool" where
  "ingested e w req device =
     (validationErrors req = [] \<and> Device_findOne e w (deviceId req) = Inr (Some device)
      \<and> EnergyReading_create_rejects e = None)"

subsection \<open>Test data\<close>

text \<open>
  The arithmetic of the reals, in which nothing is rounded and every number is finite. It
  agrees with the arithmetic of the doubles on every computation whose operands and
  results are doubles. Where a number below is not a double (as 700 / 6, or 0.01 / 6), the
  doubles have a double close to it in its place. Its \<^verbatim>\<open>ToString\<close> prints
  the digits of the integer part without the zeros at the end, as JavaScript does for a
  double whose shortest digits are its exact ones.
\<close>

definition ToString_large :: "real \<Rightarrow> string" where
  "ToString_large x =
     (let ds = decimal (nat \<lfloor>x\<rfloor>);
          n = length ds
      in (case rev (dropWhile (\<lambda>c. c = CHR ''0'') (rev ds)) of
            [] \<Rightarrow> []
          | d # rest \<Rightarrow> if rest = [] then [d] else d # CHR ''.'' # rest)
         @ ''e+'' @ decimal (n - 1))"

definition exact :: "real engine" where
  "exact = \<lparr>num_lit = (\<lambda>x. x), num_add = (\<lambda>a b. a + b), num_mul = (\<lambda>a b. a * b),
     num_div = (\<lambda>a b. a / b), num_gt = (\<lambda>a b. b < a), num_value = Finite,
     num_ToString = ToString_large\<rparr>"

text \<open>
  An environment in which no call rejects, one registered meter with an owner who has an
  e-mail address, and the world in which that meter has stored readings of given powers,
  oldest first, at the times 1, 2, ...; requests arrive at time 100.
\<close>

definition env0 :: env where
  "env0 = \<lparr>now = 100, Device_findOne_rejects = None, EnergyReading_create_rejects = None,
     EnergyReading_find_rejects = None, EnergyReading_countDocuments_rejects = None,
     Alert_create_rejects = None, User_findById_rejects = None,
     sendEnergyAlert_rejects = None\<rparr>"

definition meter :: Device where
  "meter = \<lparr>d_userId = 7, d_deviceId = ''ESP32_001''\<rparr>"

definition stored :: "real \<Rightarrow> Date \<Rightarrow> real EnergyReading" where
  "stored p t =
     \<lparr>r_deviceId = ''ESP32_001'', r_current = p, r_voltage = 1, r_temperature = 25,
      r_power = p, r_userId = 7, r_timestamp = t\<rparr>"

fun stored_from :: "Date \<Rightarrow> real list \<Rightarrow> real EnergyReading list" where
  "stored_from t [] = []"
| "stored_from t (p # ps) = stored p t # stored_from (t + 1) ps"

definition history :: "real list \<Rightarrow> real world" where
  "history ps =
     \<lparr>devices = [meter], energyReadings = stored_from 1 ps, alerts = [],
      users = [\<lparr>u_id = 7, email = Some ''owner@example.org'', fcmToken = None\<rparr>],
      notifications = [], console = []\<rparr>"

definition ingest :: "real \<Rightarrow> real AddRequest" where
  "ingest p =
     \<lparr>validationErrors = [], deviceId = ''ESP32_001'', current = p, voltage = 1,
      temperature = 25\<rparr>"

text \<open>A listing request for the registered meter.\<close>

definition listing :: "int option \<Rightarrow> int option \<Rightarrow> ListRequest" where
  "listing l p = \<lparr>params_deviceId = ''ESP32_001'', query_limit = l, query_page = p\<rparr>"

subsection \<open>Text with two decimal places\<close>

text \<open>
  A number formatted to exactly two decimal places: an optional minus sign, one or more
  digits, a point, and two digits.
\<close>

definition is_digit :: "char \<Rightarrow> bool" where
  "is_digit c = (c \<in> set ''0123456789'')"

definition fixed2_unsigned :: "string \<Rightarrow> bool" where
  "fixed2_unsigned t =
     (4 \<le> length t \<and> list_all is_digit (take (length t - 3) t)
      \<and> t ! (length t - 3) = CHR ''.'' \<and> list_all is_digit (drop (length t - 2) t))"

definition two_decimals :: "string \<Rightarrow> bool" where
  "two_decimals s =
     (case s of
        [] \<Rightarrow> False
      | c # t \<Rightarrow> if c = CHR ''-'' then fixed2_unsigned t else fixed2_unsigned s)"

section \<open>Lemmas\<close>

lemmas run_defs = addEnergyReading_def checkForPowerSpike_def spike_try_def
  Device_findOne_def EnergyReading_create_def EnergyReading_find_def Alert_create_def
  User_findById_def sendEnergyAlert_def console_write_def newest_first_def of_device_def
  apply_limit_def truthy_def env0_def history_def ingest_def stored_def meter_def exact_def
  Let_def

subsection \<open>The window\<close>

lemma find_recent:
  "EnergyReading_find e w d (Some 10) 0 =
     (case EnergyReading_find_rejects e of
        Some m \<Rightarrow> Inl m
      | None \<Rightarrow> Inr (recentReadings w d))"
  by (simp add: EnergyReading_find_def apply_limit_def recentReadings_def split: option.splits)

lemma sort_key_snoc_least:
  "\<forall>y\<in>set xs. f x < f y \<Longrightarrow> sort_key f (xs @ [x]) = x # sort_key f xs"
  by (induction xs) (auto simp add: sort_key_simps)

lemma newest_first_snoc:
  "\<forall>r\<in>set rs. r_timestamp r < r_timestamp x \<Longrightarrow> newest_first (rs @ [x]) = x # newest_first rs"
  by (simp add: newest_first_def sort_key_snoc_least)

lemma recent_after_insert:
  assumes "\<forall>r\<in>set (energyReadings w). r_deviceId r = d \<longrightarrow> r_timestamp r < r_timestamp x"
    and "r_deviceId x = d"
  shows "recentReadings (w\<lparr>energyReadings := energyReadings w @ [x]\<rparr>) d
           = x # take 9 (newest_first (of_device d (energyReadings w)))"
proof -
  have "\<forall>r\<in>set (of_device d (energyReadings w)). r_timestamp r < r_timestamp x"
    using assms(1) by (simp add: of_device_def)
  then have "newest_first (of_device d (energyReadings w) @ [x])
               = x # newest_first (of_device d (energyReadings w))"
    by (rule newest_first_snoc)
  then show ?thesis
    using assms(2) by (simp add: recentReadings_def of_device_def)
qed

lemma length_recent_le:
  "length (recentReadings w d) \<le> length (of_device d (energyReadings w))"
  by (simp add: recentReadings_def newest_first_def)

subsection \<open>The paths of the spike check\<close>

lemma spike_try_find_rejects:
  "EnergyReading_find_rejects e = Some m \<Longrightarrow> spike_try A e w d p u = (Some m, w)"
  by (simp add: spike_try_def find_recent)

lemma spike_try_no_spike:
  "EnergyReading_find_rejects e = None \<Longrightarrow> \<not> is_spike A (recentReadings w d) p
     \<Longrightarrow> spike_try A e w d p u = (None, w)"
  by (auto simp add: spike_try_def find_recent average_power_def threshold_for_def is_spike_def Let_def)

lemma spike_try_alert_rejects:
  "EnergyReading_find_rejects e = None \<Longrightarrow> is_spike A (recentReadings w d) p
     \<Longrightarrow> Alert_create_rejects e = Some m \<Longrightarrow> spike_try A e w d p u = (Some m, w)"
  by (auto simp add: spike_try_def find_recent average_power_def threshold_for_def is_spike_def Let_def Alert_create_def)

lemma spike_try_alert:
  "EnergyReading_find_rejects e = None \<Longrightarrow> is_spike A (recentReadings w d) p
     \<Longrightarrow> Alert_create_rejects e = None
     \<Longrightarrow> spike_try A e w d p u =
         notify e
           (w\<lparr>alerts := alerts w @ [spike_alert A d u p (average_power A (recentReadings w d))]\<rparr>)
           d u (spike_alert A d u p (average_power A (recentReadings w d)))"
  by (auto simp add: spike_try_def find_recent average_power_def threshold_for_def is_spike_def Let_def Alert_create_def
      notify_def spike_alert_def split: sum.splits option.splits prod.splits)

lemma spike_try_cases:
  "spike_try A e w d p u =
     (case EnergyReading_find_rejects e of
        Some m \<Rightarrow> (Some m, w)
      | None \<Rightarrow>
          if is_spike A (recentReadings w d) p then
            (case Alert_create_rejects e of
               Some m \<Rightarrow> (Some m, w)
             | None \<Rightarrow>
                 notify e
                   (w\<lparr>alerts := alerts w
                        @ [spike_alert A d u p (average_power A (recentReadings w d))]\<rparr>)
                   d u (spike_alert A d u p (average_power A (recentReadings w d))))
          else (None, w))"
  by (simp add: spike_try_find_rejects spike_try_no_spike spike_try_alert_rejects spike_try_alert
      split: option.splits)

lemma notify_alerts: "alerts (snd (notify e w d u a)) = alerts w"
  by (simp add: notify_def User_findById_def sendEnergyAlert_def console_write_def
      split: option.splits sum.splits prod.splits)

lemma notify_energyReadings: "energyReadings (snd (notify e w d u a)) = energyReadings w"
  by (simp add: notify_def User_findById_def sendEnergyAlert_def console_write_def
      split: option.splits sum.splits prod.splits)

lemma check_alerts:
  "alerts (checkForPowerSpike A e w d p u) =
     (if creates_alert A e w d p
      then alerts w @ [spike_alert A d u p (average_power A (recentReadings w d))] else alerts w)"
proof -
  have "alerts (case (r, w') of
                  (Some msg, w'') \<Rightarrow> console_write (''Power spike check error: '' @ msg) w''
                | (None, w'') \<Rightarrow> w'') = alerts w'" for r w'
    by (simp add: console_write_def split: option.splits)
  from this[of "fst (spike_try A e w d p u)" "snd (spike_try A e w d p u)"]
  have "alerts (checkForPowerSpike A e w d p u) = alerts (snd (spike_try A e w d p u))"
    unfolding checkForPowerSpike_def by simp
  then show ?thesis
    by (simp add: spike_try_cases creates_alert_def notify_alerts split: option.splits)
qed

lemma check_energyReadings:
  "energyReadings (checkForPowerSpike A e w d p u) = energyReadings w"
proof -
  have "energyReadings (case (r, w') of
                  (Some msg, w'') \<Rightarrow> console_write (''Power spike check error: '' @ msg) w''
                | (None, w'') \<Rightarrow> w'') = energyReadings w'" for r w'
    by (simp add: console_write_def split: option.splits)
  from this[of "fst (spike_try A e w d p u)" "snd (spike_try A e w d p u)"]
  have "energyReadings (checkForPowerSpike A e w d p u)
          = energyReadings (snd (spike_try A e w d p u))"
    unfolding checkForPowerSpike_def by simp
  then show ?thesis
    by (simp add: spike_try_cases notify_energyReadings split: option.splits)
qed

lemma check_no_alert_notifications:
  "\<not> creates_alert A e w d p \<Longrightarrow> notifications (checkForPowerSpike A e w d p u) = notifications w"
  by (auto simp add: checkForPowerSpike_def spike_try_cases creates_alert_def console_write_def
      split: option.splits)

subsection \<open>The paths of the ingestion endpoint\<close>

lemma add_ingested:
  "ingested e w req device \<Longrightarrow>
   addEnergyReading A e w req =
     (\<lparr>status = 201, json = Created (new_reading A e req device)\<rparr>,
      checkForPowerSpike A e (w\<lparr>energyReadings := energyReadings w @ [new_reading A e req device]\<rparr>)
        (deviceId req) (num_mul A (current req) (voltage req)) (d_userId device))"
  by (simp add: ingested_def addEnergyReading_def EnergyReading_create_def new_reading_def Let_def)

lemma add_not_ingested:
  "\<forall>device. \<not> ingested e w req device \<Longrightarrow>
   status (fst (addEnergyReading A e w req)) \<in> {400, 404, 500}
   \<and> energyReadings (snd (addEnergyReading A e w req)) = energyReadings w
   \<and> alerts (snd (addEnergyReading A e w req)) = alerts w
   \<and> notifications (snd (addEnergyReading A e w req)) = notifications w"
  by (auto simp add: ingested_def addEnergyReading_def EnergyReading_create_def Let_def
      console_write_def split: sum.splits option.splits)

subsection \<open>A delivery that fails\<close>

lemma notify_delivery:
  assumes "notify (e\<lparr>sendEnergyAlert_rejects := None\<rparr>) w d u a = (r, w')"
    and "notify (e\<lparr>sendEnergyAlert_rejects := Some err\<rparr>) w d u a = (rf, wn)"
  shows "rf = r \<and> (wn = w' \<or> (r = None \<and> (\<exists>c. console w' = c @ [''Power spike notification sent'']
            \<and> wn = w'\<lparr>console := c @ [''Error sending power spike notification: '' @ err]\<rparr>)))"
  using assms
  by (auto simp add: notify_def User_findById_def sendEnergyAlert_def console_write_def
      split: option.splits sum.splits if_splits)

lemma check_delivery:
  assumes "checkForPowerSpike A (e\<lparr>sendEnergyAlert_rejects := None\<rparr>) w d p u = w'"
    and "checkForPowerSpike A (e\<lparr>sendEnergyAlert_rejects := Some err\<rparr>) w d p u = wn"
  shows "wn = w' \<or> (\<exists>c. console w' = c @ [''Power spike notification sent'']
            \<and> wn = w'\<lparr>console := c @ [''Error sending power spike notification: '' @ err]\<rparr>)"
proof (cases "creates_alert A e w d p")
  case True
  let ?a = "spike_alert A d u p (average_power A (recentReadings w d))"
  let ?w1 = "w\<lparr>alerts := alerts w @ [?a]\<rparr>"
  obtain r w'' where ok: "notify (e\<lparr>sendEnergyAlert_rejects := None\<rparr>) ?w1 d u ?a = (r, w'')"
    by (cases "notify (e\<lparr>sendEnergyAlert_rejects := None\<rparr>) ?w1 d u ?a")
  obtain rf wn' where fl: "notify (e\<lparr>sendEnergyAlert_rejects := Some err\<rparr>) ?w1 d u ?a = (rf, wn')"
    by (cases "notify (e\<lparr>sendEnergyAlert_rejects := Some err\<rparr>) ?w1 d u ?a")
  have w': "w' = (case (r, w'') of (Some msg, x) \<Rightarrow> console_write (''Power spike check error: '' @ msg) x | (None, x) \<Rightarrow> x)"
    using True assms(1) ok by (simp add: checkForPowerSpike_def spike_try_cases creates_alert_def)
  have wn: "wn = (case (rf, wn') of (Some msg, x) \<Rightarrow> console_write (''Power spike check error: '' @ msg) x | (None, x) \<Rightarrow> x)"
    using True assms(2) fl by (simp add: checkForPowerSpike_def spike_try_cases creates_alert_def)
  from notify_delivery[OF ok fl] show ?thesis
    unfolding w' wn by (auto split: option.splits)
next
  case False
  then have "wn = w'"
    using assms by (auto simp add: checkForPowerSpike_def spike_try_cases creates_alert_def
        split: option.splits)
  then show ?thesis ..
qed

lemmas format_defs = toFixed_def ToString_large_def decimal.simps digit_def

subsection \<open>The mean of a window\<close>

lemma average_power_powers:
  assumes "map r_power rs = map r_power rs'"
  shows "average_power A rs = average_power A rs'"
proof -
  have len: "length rs = length rs'"
    using assms by (rule map_eq_imp_length_eq)
  have "foldl (\<lambda>sum reading. num_add A sum (r_power reading)) z xs
          = foldl (num_add A) z (map r_power xs)" for z and xs :: "'a EnergyReading list"
    by (induction xs arbitrary: z) simp_all
  then show ?thesis
    using assms len by (simp add: average_power_def)
qed

lemma is_spike_powers:
  "map r_power rs = map r_power rs' \<Longrightarrow> is_spike A rs p = is_spike A rs' p"
proof -
  assume eq: "map r_power rs = map r_power rs'"
  then have "length rs = length rs'"
    by (rule map_eq_imp_length_eq)
  with eq show ?thesis
    by (simp add: is_spike_def threshold_for_def average_power_powers[OF eq])
qed

lemma sum_of_zeros:
  assumes "\<forall>r\<in>set rs. r_power r = z" and "num_add A x z = x"
  shows "foldl (\<lambda>sum reading. num_add A sum (r_power reading)) x rs = x"
  using assms by (induction rs) simp_all

lemma average_power_zero_baseline:
  assumes "\<forall>r\<in>set rs. r_power r = num_lit A 0"
    and "num_add A (num_lit A 0) (r_power x) = r_power x"
    and "num_add A (r_power x) (num_lit A 0) = r_power x"
  shows "average_power A (x # rs) = num_div A (r_power x) (num_lit A (real (Suc (length rs))))"
  using assms sum_of_zeros[of rs "num_lit A 0" A "r_power x"]
  by (simp add: average_power_def)

subsection \<open>The digits of \<open>toFixed\<close>\<close>

lemma digit_is_digit: "d < 10 \<Longrightarrow> is_digit (digit d)"
proof -
  assume "d < 10"
  then have "d < length ''0123456789''" by simp
  then have "''0123456789'' ! d \<in> set ''0123456789''" by (rule nth_mem)
  then show ?thesis by (simp only: is_digit_def digit_def)
qed

lemma decimal_digits: "list_all is_digit (decimal n) \<and> decimal n \<noteq> []"
proof (induction n rule: decimal.induct)
  case (1 n)
  show ?case
  proof (cases "n < 10")
    case True
    then show ?thesis
      by (subst (1 2) decimal.simps) (simp add: digit_is_digit)
  next
    case False
    have "is_digit (digit (n mod 10))"
      by (rule digit_is_digit) simp
    with False 1 show ?thesis
      by (subst (1 2) decimal.simps) simp
  qed
qed

lemma is_digit_not_minus: "is_digit c \<Longrightarrow> c \<noteq> CHR ''-''"
  by (auto simp add: is_digit_def)

lemma is_digit_zero: "is_digit (CHR ''0'')"
  by (simp add: is_digit_def)

lemma fixed2_point:
  assumes "a \<noteq> []" and "list_all is_digit a" and "list_all is_digit b" and "length b = 2"
  shows "fixed2_unsigned (a @ ''.'' @ b)"
  using assms by (cases a) (simp_all add: fixed2_unsigned_def nth_append)

lemma split_last_two:
  assumes "list_all is_digit m" and "3 \<le> length m"
  shows "fixed2_unsigned (take (length m - 2) m @ ''.'' @ drop (length m - 2) m)"
    and "is_digit (hd (take (length m - 2) m @ ''.'' @ drop (length m - 2) m))"
proof -
  have a: "take (length m - 2) m \<noteq> []"
    using assms(2) by auto
  have da: "list_all is_digit (take (length m - 2) m)"
    using assms(1) by (simp add: list_all_iff) (meson in_set_takeD)
  have db: "list_all is_digit (drop (length m - 2) m)"
    using assms(1) by (simp add: list_all_iff) (meson in_set_dropD)
  have lb: "length (drop (length m - 2) m) = 2"
    using assms(2) by simp
  show "fixed2_unsigned (take (length m - 2) m @ ''.'' @ drop (length m - 2) m)"
    using a da db lb by (rule fixed2_point)
  have "hd (take (length m - 2) m @ ''.'' @ drop (length m - 2) m) = hd (take (length m - 2) m)"
    using a by simp
  moreover have "hd (take (length m - 2) m) \<in> set (take (length m - 2) m)"
    using a by (rule hd_in_set)
  ultimately show "is_digit (hd (take (length m - 2) m @ ''.'' @ drop (length m - 2) m))"
    using da by (simp add: list_all_iff)
qed

lemma toFixed_unfold:
  "num_value A x = Finite v \<Longrightarrow> \<bar>v\<bar> < 10 ^ 21 \<Longrightarrow>
   toFixed A x 2 =
     (let n = nat \<lfloor>\<bar>v\<bar> * 10 ^ 2 + 1 / 2\<rfloor>;
          m = (if n = 0 then ''0'' else decimal n);
          k = length m;
          m' = (if k \<le> 2 then replicate (2 + 1 - k) (CHR ''0'') @ m else m);
          k' = (if k \<le> 2 then 2 + 1 else k)
      in (if v < 0 then ''-'' else []) @ take (k' - 2) m' @ ''.'' @ drop (k' - 2) m')"
  by (simp add: toFixed_def Let_def abs_if)

lemma toFixed_small:
  assumes "num_value A x = Finite v" and "\<bar>v\<bar> < 10 ^ 21"
  shows "\<exists>m. list_all is_digit m \<and> 3 \<le> length m
           \<and> toFixed A x 2 = (if v < 0 then ''-'' else [])
                @ take (length m - 2) m @ ''.'' @ drop (length m - 2) m"
proof -
  define n where "n = nat \<lfloor>\<bar>v\<bar> * 10 ^ 2 + 1 / 2\<rfloor>"
  define m where "m = (if n = 0 then ''0'' else decimal n)"
  define m' where "m' = (if length m \<le> 2 then replicate (2 + 1 - length m) (CHR ''0'') @ m else m)"
  define k' where "k' = (if length m \<le> 2 then 2 + 1 else length m)"
  have dm: "list_all is_digit m" and ne: "m \<noteq> []"
    using decimal_digits[of n] by (auto simp add: m_def is_digit_zero)
  have dm': "list_all is_digit m'"
    using dm by (simp add: m'_def list_all_iff is_digit_zero)
  have len: "3 \<le> length m'"
    using ne by (auto simp add: m'_def)
  have k: "k' = length m'"
    using ne by (cases m) (auto simp add: m'_def k'_def)
  have "toFixed A x 2 = (if v < 0 then ''-'' else []) @ take (k' - 2) m' @ ''.'' @ drop (k' - 2) m'"
    unfolding toFixed_unfold[OF assms] Let_def k'_def m'_def m_def n_def by (rule refl)
  with dm' len k show ?thesis by blast
qed

lemma two_decimals_toFixed:
  assumes "num_value A x = Finite v" and "\<bar>v\<bar> < 10 ^ 21"
  shows "two_decimals (toFixed A x 2)"
proof -
  obtain m where m: "list_all is_digit m" "3 \<le> length m"
      "toFixed A x 2 = (if v < 0 then ''-'' else [])
         @ take (length m - 2) m @ ''.'' @ drop (length m - 2) m"
    using toFixed_small[OF assms] by blast
  let ?s = "take (length m - 2) m @ ''.'' @ drop (length m - 2) m"
  have f: "fixed2_unsigned ?s" and h: "is_digit (hd ?s)"
    using split_last_two[OF m(1,2)] by simp_all
  show ?thesis
  proof (cases "v < 0")
    case True
    then have "toFixed A x 2 = CHR ''-'' # ?s"
      using m(3) by simp
    then show ?thesis
      using f by (simp add: two_decimals_def)
  next
    case False
    have "?s \<noteq> []" by simp
    then obtain c t where ct: "?s = c # t" by (cases ?s) auto
    then have "c \<noteq> CHR ''-''"
      using h is_digit_not_minus by (metis list.sel(1))
    then have "two_decimals ?s"
      using f ct by (simp add: two_decimals_def)
    then show ?thesis
      using False m(3) by simp
  qed
qed

subsection \<open>C1: a spike creates an alert\<close>

text \<open>
  C1, as the controller has it. \<^verbatim>\<open>addEnergyReading\<close> writes the new reading before
  it calls \<^verbatim>\<open>checkForPowerSpike\<close>, so the window of the check is the new reading
  followed by the (up to 9) most recent readings stored before it. The mean is taken over
  that window, in the arithmetic of the engine: the powers are added from the left, the sum
  is divided by the number of readings, and the threshold is the quotient times 1.5. For
  every arithmetic and every device whose stored readings are all older than the request
  and number at least 4: when a reading is ingested and both storage calls of the check
  succeed, then, if the power of the new reading compares greater than that threshold,
  exactly one alert is created, its kind is \<open>power_spike\<close>, its \<open>metadata.averagePower\<close>
  is that mean and its \<open>metadata.threshold\<close> is that threshold; and if it does not, no
  alert is created.
\<close>

theorem C1_spike_over_window_with_new_reading:
  assumes "ingested e w req device"
    and "EnergyReading_find_rejects e = None" and "Alert_create_rejects e = None"
    and "\<forall>r\<in>set (energyReadings w). r_deviceId r = deviceId req \<longrightarrow> r_timestamp r < now e"
    and "prior = take 9 (newest_first (of_device (deviceId req) (energyReadings w)))"
    and "4 \<le> length prior"
    and "window = new_reading A e req device # prior"
    and "P = num_mul A (current req) (voltage req)"
    and "avg = average_power A window"
    and "thr = num_mul A avg (num_lit A (3 / 2))"
  shows "(num_gt A P thr \<longrightarrow>
            (\<exists>a. alerts (snd (addEnergyReading A e w req)) = alerts w @ [a]
               \<and> alertType a = ''power_spike''
               \<and> metadata a = \<lparr>currentPower = P, averagePower = avg, threshold = thr\<rparr>))
       \<and> (\<not> num_gt A P thr \<longrightarrow> alerts (snd (addEnergyReading A e w req)) = alerts w)"
proof -
  let ?x = "new_reading A e req device"
  let ?w1 = "w\<lparr>energyReadings := energyReadings w @ [?x]\<rparr>"
  have win: "recentReadings ?w1 (deviceId req) = window"
    using assms(4,5,7) recent_after_insert[of w "deviceId req" ?x]
    by (simp add: new_reading_def)
  have spike: "is_spike A window P = num_gt A P thr"
    using assms(6,7,9,10) by (simp add: is_spike_def threshold_for_def)
  have "alerts (snd (addEnergyReading A e w req))
      = (if num_gt A P thr
         then alerts w @ [spike_alert A (deviceId req) (d_userId device) P avg]
         else alerts w)"
    using assms(2,3,8,9) win spike
    by (simp add: add_ingested[OF assms(1)] check_alerts creates_alert_def)
  then show ?thesis
    using assms(10) by (simp add: spike_alert_def)
qed

text \<open>
  After five readings of power 100: a reading of power 400 creates an alert whose mean is
  900 / 6 = 150 and whose threshold is 225, and a reading of power 160, with the mean
  660 / 6 = 110 and the threshold 165, creates none.
\<close>

theorem C1_witness:
  "(\<exists>a. alerts (snd (addEnergyReading exact env0 (history [100, 100, 100, 100, 100]) (ingest 400))) = [a]
      \<and> alertType a = ''power_spike''
      \<and> metadata a = \<lparr>currentPower = 400, averagePower = 150, threshold = 225\<rparr>)
   \<and> alerts (snd (addEnergyReading exact env0 (history [100, 100, 100, 100, 100]) (ingest 160))) = []"
proof -
  let ?w = "history [100, 100, 100, 100, 100]"
  let ?prior = "[stored 100 5, stored 100 4, stored 100 3, stored 100 2, stored 100 1]"
  have 1: "ingested env0 ?w (ingest p) meter" for p
    by (simp add: ingested_def run_defs)
  have 2: "EnergyReading_find_rejects env0 = None" and 3: "Alert_create_rejects env0 = None"
    by (simp_all add: env0_def)
  have 4: "\<forall>r\<in>set (energyReadings ?w).
             r_deviceId r = deviceId (ingest p) \<longrightarrow> r_timestamp r < now env0" for p
    by (simp add: run_defs)
  have 5: "?prior = take 9 (newest_first (of_device (deviceId (ingest p)) (energyReadings ?w)))"
    for p
    by (simp add: run_defs)
  have 6: "4 \<le> length ?prior"
    by simp
  have e: "alerts ?w = []"
    by (simp add: history_def)
  have p400: "num_mul exact (current (ingest 400)) (voltage (ingest 400)) = 400"
    and a400: "average_power exact (new_reading exact env0 (ingest 400) meter # ?prior) = 150"
    and t400: "num_mul exact 150 (num_lit exact (3 / 2)) = 225"
    and g400: "num_gt exact 400 225"
    by (simp_all add: average_power_def new_reading_def run_defs)
  have p160: "num_mul exact (current (ingest 160)) (voltage (ingest 160)) = 160"
    and a160: "average_power exact (new_reading exact env0 (ingest 160) meter # ?prior) = 110"
    and t160: "num_mul exact 110 (num_lit exact (3 / 2)) = 165"
    and g160: "\<not> num_gt exact 160 165"
    by (simp_all add: average_power_def new_reading_def run_defs)
  have "\<exists>a. alerts (snd (addEnergyReading exact env0 ?w (ingest 400))) = alerts ?w @ [a]
               \<and> alertType a = ''power_spike''
               \<and> metadata a = \<lparr>currentPower = 400, averagePower = 150, threshold = 225\<rparr>"
    using C1_spike_over_window_with_new_reading[OF 1 2 3 4 5 6 refl p400[symmetric]
        a400[symmetric] t400[symmetric]] g400
    by simp
  moreover have "alerts (snd (addEnergyReading exact env0 ?w (ingest 160))) = alerts ?w"
    using C1_spike_over_window_with_new_reading[OF 1 2 3 4 5 6 refl p160[symmetric]
        a160[symmetric] t160[symmetric]] g160
    by simp
  ultimately show ?thesis
    by (simp add: e)
qed

text \<open>
  The claim as it was stated takes the mean over the readings before the new one. After
  five readings of power 100 that mean is 100 and 1.5 times it is 150. A reading of power
  200 creates an alert, but with the mean 700 / 6 (in the doubles, the double nearest to
  it) and the threshold 175, not 100 and 150; a reading of power 160 exceeds 150 and
  creates no alert.
\<close>

theorem C1_counterexample:
  "map metadata
     (alerts (snd (addEnergyReading exact env0 (history [100, 100, 100, 100, 100]) (ingest 200))))
     = [\<lparr>currentPower = 200, averagePower = 350 / 3, threshold = 175\<rparr>]
   \<and> map metadata
       (alerts (snd (addEnergyReading exact env0 (history [100, 100, 100, 100, 100]) (ingest 200))))
     \<noteq> [\<lparr>currentPower = 200, averagePower = 100, threshold = 150\<rparr>]
   \<and> alerts (snd (addEnergyReading exact env0 (history [100, 100, 100, 100, 100]) (ingest 160))) = []"
  by (simp add: run_defs)

subsection \<open>C2: too short a history creates no alert\<close>

text \<open>
  C2, as the controller has it. The check counts the readings it fetched, and the new
  reading is one of them. For every device with fewer than 4 stored readings, a request
  creates no alert and sends no notification, whatever the power of the new reading and
  whichever calls reject.
\<close>

theorem C2_short_history_no_alert:
  assumes "length (of_device (deviceId req) (energyReadings w)) < 4"
  shows "alerts (snd (addEnergyReading A e w req)) = alerts w
       \<and> notifications (snd (addEnergyReading A e w req)) = notifications w"
proof (cases "\<exists>device. ingested e w req device")
  case True
  then obtain device where ing: "ingested e w req device" ..
  let ?x = "new_reading A e req device"
  let ?w1 = "w\<lparr>energyReadings := energyReadings w @ [?x]\<rparr>"
  have "length (of_device (deviceId req) (energyReadings ?w1)) < 5"
    using assms by (simp add: of_device_def)
  then have "length (recentReadings ?w1 (deviceId req)) < 5"
    using length_recent_le[of ?w1 "deviceId req"] by linarith
  then have no: "\<not> creates_alert A e ?w1 (deviceId req) (num_mul A (current req) (voltage req))"
    by (simp add: creates_alert_def is_spike_def)
  show ?thesis
    using ing no by (simp add: add_ingested check_alerts check_no_alert_notifications)
next
  case False
  then show ?thesis
    using add_not_ingested[of e w req A] by simp
qed

text \<open>After three readings of power 100, a reading of power 500 creates no alert.\<close>

theorem C2_witness:
  "length (of_device (deviceId (ingest 500)) (energyReadings (history [100, 100, 100]))) < 4
   \<and> alerts (snd (addEnergyReading exact env0 (history [100, 100, 100]) (ingest 500))) = []"
proof -
  have h: "length (of_device (deviceId (ingest 500)) (energyReadings (history [100, 100, 100]))) < 4"
    by (simp add: run_defs)
  show ?thesis
    using h C2_short_history_no_alert[OF h, of exact env0] by (simp add: history_def)
qed

text \<open>
  The claim as it was stated: after four readings of power 100, a reading of power 500
  creates no alert. The window then holds five readings with the mean 180, and the alert is
  created.
\<close>

theorem C2_counterexample:
  "length (of_device ''ESP32_001'' (energyReadings (history [100, 100, 100, 100]))) = 4
   \<and> map metadata
       (alerts (snd (addEnergyReading exact env0 (history [100, 100, 100, 100]) (ingest 500))))
       = [\<lparr>currentPower = 500, averagePower = 180, threshold = 270\<rparr>]"
  by (simp add: run_defs)

subsection \<open>C3: the metadata of an alert\<close>

text \<open>
  C3. A request creates at most one alert. Every alert it creates belongs to a request
  that was answered with the created reading; the power of that reading is the product of
  the current and the voltage of the request, the alert's \<open>metadata.currentPower\<close> is the
  power of that reading, and its \<open>metadata.threshold\<close> is its \<open>metadata.averagePower\<close>
  times 1.5, the two products being the engine's. This holds in every environment,
  whichever calls reject, and for every arithmetic.
\<close>

theorem C3_alert_metadata:
  assumes "addEnergyReading A e w req = (res, w')"
  shows "\<exists>new. alerts w' = alerts w @ new \<and> length new \<le> 1
           \<and> (\<forall>a\<in>set new. \<exists>reading. json res = Created reading
                  \<and> reading \<in> set (energyReadings w')
                  \<and> r_power reading = num_mul A (current req) (voltage req)
                  \<and> currentPower (metadata a) = r_power reading
                  \<and> threshold (metadata a) = num_mul A (averagePower (metadata a)) (num_lit A (3 / 2)))"
proof (cases "\<exists>device. ingested e w req device")
  case True
  then obtain device where ing: "ingested e w req device" ..
  let ?x = "new_reading A e req device"
  let ?w1 = "w\<lparr>energyReadings := energyReadings w @ [?x]\<rparr>"
  let ?p = "num_mul A (current req) (voltage req)"
  have res: "res = \<lparr>status = 201, json = Created ?x\<rparr>"
    and w': "w' = checkForPowerSpike A e ?w1 (deviceId req) ?p (d_userId device)"
    using assms add_ingested[OF ing] by simp_all
  have rd: "?x \<in> set (energyReadings w')"
    by (simp add: w' check_energyReadings)
  show ?thesis
  proof (cases "creates_alert A e ?w1 (deviceId req) ?p")
    case True
    let ?a = "spike_alert A (deviceId req) (d_userId device) ?p
                (average_power A (recentReadings ?w1 (deviceId req)))"
    have "alerts w' = alerts w @ [?a]"
      using True by (simp add: w' check_alerts)
    moreover have "json res = Created ?x \<and> r_power ?x = ?p
        \<and> currentPower (metadata ?a) = r_power ?x
        \<and> threshold (metadata ?a) = num_mul A (averagePower (metadata ?a)) (num_lit A (3 / 2))"
      by (simp add: res new_reading_def spike_alert_def)
    ultimately show ?thesis
      using rd by (intro exI[of _ "[?a]"]) auto
  next
    case False
    then have "alerts w' = alerts w @ []"
      by (simp add: w' check_alerts)
    then show ?thesis
      by (intro exI[of _ "[]"]) simp
  qed
next
  case False
  then have "alerts w' = alerts w @ []"
    using add_not_ingested[of e w req A] assms by simp
  then show ?thesis
    by (intro exI[of _ "[]"]) simp
qed

text \<open>The alert of the reading of power 200 after five readings of power 100.\<close>

theorem C3_witness:
  "\<exists>a reading. alerts (snd (addEnergyReading exact env0 (history [100, 100, 100, 100, 100]) (ingest 200))) = [a]
     \<and> json (fst (addEnergyReading exact env0 (history [100, 100, 100, 100, 100]) (ingest 200))) = Created reading
     \<and> r_power reading = 200 \<and> currentPower (metadata a) = r_power reading
     \<and> threshold (metadata a) = averagePower (metadata a) * 1.5"
proof -
  let ?run = "addEnergyReading exact env0 (history [100, 100, 100, 100, 100]) (ingest 200)"
  obtain new where n: "alerts (snd ?run) = alerts (history [100, 100, 100, 100, 100]) @ new"
    and p: "\<forall>a\<in>set new. \<exists>reading. json (fst ?run) = Created reading
                  \<and> reading \<in> set (energyReadings (snd ?run))
                  \<and> r_power reading = num_mul exact (current (ingest 200)) (voltage (ingest 200))
                  \<and> currentPower (metadata a) = r_power reading
                  \<and> threshold (metadata a)
                      = num_mul exact (averagePower (metadata a)) (num_lit exact (3 / 2))"
    using C3_alert_metadata[of exact env0 "history [100, 100, 100, 100, 100]" "ingest 200" "fst ?run" "snd ?run"]
    by auto
  have e: "alerts (history [100, 100, 100, 100, 100]) = []"
    by (simp add: history_def)
  have "length (alerts (snd ?run)) = 1"
    by (simp add: run_defs)
  then obtain a where a: "new = [a]"
    using n e by (cases new) simp_all
  from p a obtain reading where r: "json (fst ?run) = Created reading
      \<and> r_power reading = num_mul exact (current (ingest 200)) (voltage (ingest 200))
      \<and> currentPower (metadata a) = r_power reading
      \<and> threshold (metadata a)
          = num_mul exact (averagePower (metadata a)) (num_lit exact (3 / 2))"
    by auto
  have "num_mul exact (current (ingest 200)) (voltage (ingest 200)) = 200"
    and "num_mul exact (averagePower (metadata a)) (num_lit exact (3 / 2))
          = averagePower (metadata a) * 1.5"
    by (simp_all add: ingest_def exact_def)
  with r n a e show ?thesis
    by auto
qed

subsection \<open>C4: a storage failure inside the spike check\<close>

text \<open>
  C4. Let the reading of a request be written. If the fetch of the history rejects, or if
  the fetch succeeds, the window spikes and the write of the alert rejects, then the
  request is answered with 201 and the created reading, and the world differs from the
  one before the request in exactly two things: the reading has been added, and the
  console has the line \<^verbatim>\<open>Power spike check error:\<close> with the message of the
  error. No alert is written, no notification is sent.
\<close>

theorem C4_storage_failure_in_spike_check:
  assumes "ingested e w req device"
    and "w1 = w\<lparr>energyReadings := energyReadings w @ [new_reading A e req device]\<rparr>"
    and "EnergyReading_find_rejects e = Some msg
         \<or> (EnergyReading_find_rejects e = None
             \<and> is_spike A (recentReadings w1 (deviceId req)) (num_mul A (current req) (voltage req))
             \<and> Alert_create_rejects e = Some msg)"
  shows "addEnergyReading A e w req =
           (\<lparr>status = 201, json = Created (new_reading A e req device)\<rparr>,
            console_write (''Power spike check error: '' @ msg) w1)"
  using assms
  by (auto simp add: add_ingested checkForPowerSpike_def spike_try_cases)

text \<open>Both failures, on the reading of power 200 after five readings of power 100.\<close>

theorem C4_witness:
  "addEnergyReading exact (env0\<lparr>EnergyReading_find_rejects := Some ''storage unavailable''\<rparr>)
       (history [100, 100, 100, 100, 100]) (ingest 200)
     = (\<lparr>status = 201, json = Created (stored 200 100)\<rparr>,
        (history [100, 100, 100, 100, 100])
          \<lparr>energyReadings := energyReadings (history [100, 100, 100, 100, 100]) @ [stored 200 100],
           console := [''Power spike check error: storage unavailable'']\<rparr>)
   \<and> addEnergyReading exact (env0\<lparr>Alert_create_rejects := Some ''storage unavailable''\<rparr>)
       (history [100, 100, 100, 100, 100]) (ingest 200)
     = (\<lparr>status = 201, json = Created (stored 200 100)\<rparr>,
        (history [100, 100, 100, 100, 100])
          \<lparr>energyReadings := energyReadings (history [100, 100, 100, 100, 100]) @ [stored 200 100],
           console := [''Power spike check error: storage unavailable'']\<rparr>)"
proof -
  let ?e1 = "env0\<lparr>EnergyReading_find_rejects := Some ''storage unavailable''\<rparr>"
  let ?e2 = "env0\<lparr>Alert_create_rejects := Some ''storage unavailable''\<rparr>"
  let ?w = "history [100, 100, 100, 100, 100]"
  have i1: "ingested ?e1 ?w (ingest 200) meter" and i2: "ingested ?e2 ?w (ingest 200) meter"
    by (simp_all add: ingested_def run_defs)
  have n1: "new_reading exact ?e1 (ingest 200) meter = stored 200 100"
    and n2: "new_reading exact ?e2 (ingest 200) meter = stored 200 100"
    by (simp_all add: new_reading_def run_defs)
  have f1: "EnergyReading_find_rejects ?e1 = Some ''storage unavailable''"
    by simp
  have f2: "EnergyReading_find_rejects ?e2 = None
      \<and> is_spike exact (recentReadings (?w\<lparr>energyReadings := energyReadings ?w @ [new_reading exact ?e2 (ingest 200) meter]\<rparr>)
           (deviceId (ingest 200))) (num_mul exact (current (ingest 200)) (voltage (ingest 200)))
      \<and> Alert_create_rejects ?e2 = Some ''storage unavailable''"
    by (simp add: is_spike_def recentReadings_def average_power_def threshold_for_def new_reading_def run_defs)
  show ?thesis
    using C4_storage_failure_in_spike_check[where A = exact, OF i1 refl disjI1, OF f1]
      C4_storage_failure_in_spike_check[where A = exact, OF i2 refl disjI2, OF f2]
    by (simp add: n1 n2 console_write_def history_def)
qed

subsection \<open>C5: a delivery that fails\<close>

text \<open>
  C5. Take any request in any world and environment, and run it twice: once with a
  notification gateway that delivers and once with one that fails. The two responses are
  equal, and so are the alerts, the readings and the calls of the gateway. The two worlds
  are equal, or they differ in the last line of the console alone, which is
  \<^verbatim>\<open>Power spike notification sent\<close> in the one and
  \<^verbatim>\<open>Error sending power spike notification:\<close> with the message of the error
  in the other. So the error is caught where it is thrown, the response does not change,
  and the alert that was persisted before the delivery stays.
\<close>

theorem C5_delivery_failure_discarded:
  assumes "addEnergyReading A (e\<lparr>sendEnergyAlert_rejects := None\<rparr>) w req = (res, w')"
    and "addEnergyReading A (e\<lparr>sendEnergyAlert_rejects := Some err\<rparr>) w req = (res_f, w_f)"
  shows "res_f = res \<and> alerts w_f = alerts w' \<and> energyReadings w_f = energyReadings w'
       \<and> notifications w_f = notifications w'
       \<and> (w_f = w' \<or> (\<exists>c. console w' = c @ [''Power spike notification sent'']
             \<and> w_f = w'\<lparr>console := c @ [''Error sending power spike notification: '' @ err]\<rparr>))"
proof -
  let ?ok = "e\<lparr>sendEnergyAlert_rejects := None\<rparr>"
  let ?fl = "e\<lparr>sendEnergyAlert_rejects := Some err\<rparr>"
  have both: "res_f = res
       \<and> (w_f = w' \<or> (\<exists>c. console w' = c @ [''Power spike notification sent'']
             \<and> w_f = w'\<lparr>console := c @ [''Error sending power spike notification: '' @ err]\<rparr>))"
  proof (cases "\<exists>device. ingested ?ok w req device")
    case True
    then obtain device where ing: "ingested ?ok w req device" ..
    then have ingf: "ingested ?fl w req device"
      by (simp add: ingested_def Device_findOne_def)
    let ?w1 = "w\<lparr>energyReadings := energyReadings w @ [new_reading A ?ok req device]\<rparr>"
    have n: "new_reading A ?fl req device = new_reading A ?ok req device"
      by (simp add: new_reading_def)
    have ok: "checkForPowerSpike A ?ok ?w1 (deviceId req) (num_mul A (current req) (voltage req))
                (d_userId device) = w'"
      and r: "res = \<lparr>status = 201, json = Created (new_reading A ?ok req device)\<rparr>"
      using assms(1) add_ingested[OF ing] by simp_all
    have fl: "checkForPowerSpike A ?fl ?w1 (deviceId req) (num_mul A (current req) (voltage req))
                (d_userId device) = w_f"
      and rf: "res_f = \<lparr>status = 201, json = Created (new_reading A ?ok req device)\<rparr>"
      using assms(2) add_ingested[OF ingf] n by simp_all
    show ?thesis
      using check_delivery[OF ok fl] r rf by simp
  next
    case False
    then have "addEnergyReading A ?fl w req = addEnergyReading A ?ok w req"
      by (auto simp add: addEnergyReading_def ingested_def Device_findOne_def
          EnergyReading_create_def split: option.splits sum.splits)
    then show ?thesis
      using assms by simp
  qed
  then have "alerts w_f = alerts w' \<and> energyReadings w_f = energyReadings w'
       \<and> notifications w_f = notifications w'"
    by auto
  with both show ?thesis
    by simp
qed

text \<open>
  A delivery that fails for the alert of the reading of power 200 after five readings of
  power 100: the response is still 201 and the alert is there.
\<close>

theorem C5_witness:
  "fst (addEnergyReading exact (env0\<lparr>sendEnergyAlert_rejects := Some ''SMTP timeout''\<rparr>)
          (history [100, 100, 100, 100, 100]) (ingest 200))
     = fst (addEnergyReading exact (env0\<lparr>sendEnergyAlert_rejects := None\<rparr>)
          (history [100, 100, 100, 100, 100]) (ingest 200))
   \<and> status (fst (addEnergyReading exact (env0\<lparr>sendEnergyAlert_rejects := Some ''SMTP timeout''\<rparr>)
          (history [100, 100, 100, 100, 100]) (ingest 200))) = 201
   \<and> alerts (snd (addEnergyReading exact (env0\<lparr>sendEnergyAlert_rejects := Some ''SMTP timeout''\<rparr>)
          (history [100, 100, 100, 100, 100]) (ingest 200)))
     = alerts (snd (addEnergyReading exact (env0\<lparr>sendEnergyAlert_rejects := None\<rparr>)
          (history [100, 100, 100, 100, 100]) (ingest 200)))
   \<and> length (alerts (snd (addEnergyReading exact (env0\<lparr>sendEnergyAlert_rejects := None\<rparr>)
          (history [100, 100, 100, 100, 100]) (ingest 200)))) = 1
   \<and> console (snd (addEnergyReading exact (env0\<lparr>sendEnergyAlert_rejects := Some ''SMTP timeout''\<rparr>)
          (history [100, 100, 100, 100, 100]) (ingest 200)))
     = [''Error sending power spike notification: SMTP timeout'']"
proof -
  let ?ok = "addEnergyReading exact (env0\<lparr>sendEnergyAlert_rejects := None\<rparr>)
          (history [100, 100, 100, 100, 100]) (ingest 200)"
  let ?fl = "addEnergyReading exact (env0\<lparr>sendEnergyAlert_rejects := Some ''SMTP timeout''\<rparr>)
          (history [100, 100, 100, 100, 100]) (ingest 200)"
  have c: "console (snd ?fl) = [''Error sending power spike notification: SMTP timeout'']"
    by (simp add: run_defs)
  have s: "status (fst ?ok) = 201" and l: "length (alerts (snd ?ok)) = 1"
    by (simp_all add: run_defs)
  show ?thesis
    using C5_delivery_failure_discarded[of exact env0 "history [100, 100, 100, 100, 100]" "ingest 200"
        "fst ?ok" "snd ?ok" "''SMTP timeout''" "fst ?fl" "snd ?fl"] c s l
    by simp
qed

subsection \<open>C6: an unknown device\<close>

text \<open>
  C6, as the controller has it. The controller validates the request before it looks up
  the device. For every request whose \<open>deviceId\<close> is the id of no registered device: no
  reading and no alert is written and no notification is sent; and if the request passes
  validation and the lookup does not reject, the answer is 404 and the world is unchanged.
\<close>

theorem C6_unknown_device:
  assumes "\<forall>d\<in>set (devices w). d_deviceId d \<noteq> deviceId req"
  shows "energyReadings (snd (addEnergyReading A e w req)) = energyReadings w
       \<and> alerts (snd (addEnergyReading A e w req)) = alerts w
       \<and> notifications (snd (addEnergyReading A e w req)) = notifications w
       \<and> (validationErrors req = [] \<and> Device_findOne_rejects e = None \<longrightarrow>
            addEnergyReading A e w req = (\<lparr>status = 404, json = Failure ''Device not found''\<rparr>, w))"
proof -
  have none: "find (\<lambda>d. d_deviceId d = deviceId req) (devices w) = None"
    using assms by (simp add: find_None_iff)
  then have "\<forall>device. \<not> ingested e w req device"
    by (simp add: ingested_def Device_findOne_def split: option.splits)
  then have "energyReadings (snd (addEnergyReading A e w req)) = energyReadings w
       \<and> alerts (snd (addEnergyReading A e w req)) = alerts w
       \<and> notifications (snd (addEnergyReading A e w req)) = notifications w"
    using add_not_ingested[of e w req A] by simp
  moreover have "validationErrors req = [] \<and> Device_findOne_rejects e = None \<longrightarrow>
            addEnergyReading A e w req = (\<lparr>status = 404, json = Failure ''Device not found''\<rparr>, w)"
    using none by (simp add: addEnergyReading_def Device_findOne_def)
  ultimately show ?thesis
    by simp
qed

text \<open>A valid request for a device that is not registered.\<close>

theorem C6_witness:
  "addEnergyReading exact env0 (history [100, 100, 100, 100, 100]) ((ingest 200)\<lparr>deviceId := ''ESP32_999''\<rparr>)
     = (\<lparr>status = 404, json = Failure ''Device not found''\<rparr>, history [100, 100, 100, 100, 100])"
proof -
  have h: "\<forall>d\<in>set (devices (history [100, 100, 100, 100, 100])).
             d_deviceId d \<noteq> deviceId ((ingest 200)\<lparr>deviceId := ''ESP32_999''\<rparr>)"
    by (simp add: history_def meter_def)
  show ?thesis
    using C6_unknown_device[OF h, of exact env0] by (simp add: env0_def ingest_def)
qed

text \<open>
  The claim as it was stated promises 404 for every request with an unknown device. A
  request with an unknown device that fails validation is answered with 400.
\<close>

theorem C6_counterexample:
  "Device_findOne env0 (history [100, 100, 100, 100, 100]) ''ESP32_999'' = Inr None
   \<and> fst (addEnergyReading exact env0 (history [100, 100, 100, 100, 100])
        ((ingest 200)\<lparr>deviceId := ''ESP32_999'', validationErrors := [''Invalid value'']\<rparr>))
     = \<lparr>status = 400, json = ValidationFailed [''Invalid value'']\<rparr>"
  by (simp add: run_defs)

subsection \<open>C7: a baseline of zero\<close>

text \<open>
  C7, as the controller has it, in two parts and for every arithmetic.

  First, the spike check itself. When the fetch succeeds with a window of at least 5
  readings whose mean power is 0, the write of the alert succeeds, and 0 times 1.5 is 0,
  then the threshold is 0: an alert is created, with the mean 0 and the threshold 0, if
  \<open>currentPower\<close> compares greater than 0, and no alert is created if it does not.

  Second, an ingestion. \<^verbatim>\<open>addEnergyReading\<close> writes the new reading before the
  check, so when all the readings stored for the device (at least 4, all older than the
  request) have power 0, the window holds the new reading of power \<open>P\<close> before \<open>n - 1\<close>
  readings of power 0, where \<open>n\<close> is the smaller of 10 and the number of stored readings
  plus one. If adding 0 to \<open>P\<close> gives \<open>P\<close>, the mean is \<open>P / n\<close> and the threshold is
  \<open>P / n\<close> times 1.5, not 0: an alert with these numbers is created if \<open>P\<close> compares
  greater than that threshold, and no alert is created if it does not.
\<close>

theorem C7_zero_baseline:
  "(EnergyReading_find e w d (Some 10) 0 = Inr win \<and> Alert_create_rejects e = None
      \<and> 5 \<le> length win \<and> average_power A win = num_lit A 0
      \<and> num_mul A (num_lit A 0) (num_lit A (3 / 2)) = num_lit A 0
    \<longrightarrow> (num_gt A p (num_lit A 0) \<longrightarrow>
            (\<exists>a. alerts (checkForPowerSpike A e w d p u) = alerts w @ [a]
               \<and> alertType a = ''power_spike''
               \<and> metadata a
                   = \<lparr>currentPower = p, averagePower = num_lit A 0, threshold = num_lit A 0\<rparr>))
        \<and> (\<not> num_gt A p (num_lit A 0) \<longrightarrow> alerts (checkForPowerSpike A e w d p u) = alerts w))
   \<and> (ingested e' w' req device \<and> EnergyReading_find_rejects e' = None
        \<and> Alert_create_rejects e' = None
        \<and> (\<forall>r\<in>set (of_device (deviceId req) (energyReadings w')).
              r_power r = num_lit A 0 \<and> r_timestamp r < now e')
        \<and> 4 \<le> length (of_device (deviceId req) (energyReadings w'))
        \<and> P = num_mul A (current req) (voltage req)
        \<and> num_add A (num_lit A 0) P = P \<and> num_add A P (num_lit A 0) = P
        \<and> n = min 10 (Suc (length (of_device (deviceId req) (energyReadings w'))))
        \<and> avg = num_div A P (num_lit A (real n))
        \<and> thr = num_mul A avg (num_lit A (3 / 2))
    \<longrightarrow> (num_gt A P thr \<longrightarrow>
            (\<exists>a. alerts (snd (addEnergyReading A e' w' req)) = alerts w' @ [a]
               \<and> alertType a = ''power_spike''
               \<and> metadata a = \<lparr>currentPower = P, averagePower = avg, threshold = thr\<rparr>))
        \<and> (\<not> num_gt A P thr \<longrightarrow> alerts (snd (addEnergyReading A e' w' req)) = alerts w'))"
proof (intro conjI impI)
  assume h: "EnergyReading_find e w d (Some 10) 0 = Inr win \<and> Alert_create_rejects e = None
      \<and> 5 \<le> length win \<and> average_power A win = num_lit A 0
      \<and> num_mul A (num_lit A 0) (num_lit A (3 / 2)) = num_lit A 0"
  then have f: "EnergyReading_find_rejects e = None" and win: "recentReadings w d = win"
    by (simp_all add: find_recent split: option.splits)
  have c: "creates_alert A e w d p = num_gt A p (num_lit A 0)"
    using h f win by (simp add: creates_alert_def is_spike_def threshold_for_def)
  {
    assume "num_gt A p (num_lit A 0)"
    then have "alerts (checkForPowerSpike A e w d p u)
        = alerts w @ [spike_alert A d u p (num_lit A 0)]"
      using c h win by (simp add: check_alerts)
    then show "\<exists>a. alerts (checkForPowerSpike A e w d p u) = alerts w @ [a]
               \<and> alertType a = ''power_spike''
               \<and> metadata a
                   = \<lparr>currentPower = p, averagePower = num_lit A 0, threshold = num_lit A 0\<rparr>"
      using h by (simp add: spike_alert_def)
  next
    assume "\<not> num_gt A p (num_lit A 0)"
    then show "alerts (checkForPowerSpike A e w d p u) = alerts w"
      using c by (simp add: check_alerts)
  }
next
  assume h: "ingested e' w' req device \<and> EnergyReading_find_rejects e' = None
        \<and> Alert_create_rejects e' = None
        \<and> (\<forall>r\<in>set (of_device (deviceId req) (energyReadings w')).
              r_power r = num_lit A 0 \<and> r_timestamp r < now e')
        \<and> 4 \<le> length (of_device (deviceId req) (energyReadings w'))
        \<and> P = num_mul A (current req) (voltage req)
        \<and> num_add A (num_lit A 0) P = P \<and> num_add A P (num_lit A 0) = P
        \<and> n = min 10 (Suc (length (of_device (deviceId req) (energyReadings w'))))
        \<and> avg = num_div A P (num_lit A (real n))
        \<and> thr = num_mul A avg (num_lit A (3 / 2))"
  let ?x = "new_reading A e' req device"
  let ?w1 = "w'\<lparr>energyReadings := energyReadings w' @ [?x]\<rparr>"
  let ?stored = "of_device (deviceId req) (energyReadings w')"
  let ?prior = "take 9 (newest_first ?stored)"
  have ing: "ingested e' w' req device"
    using h by simp
  have px: "r_power ?x = P" and dx: "r_deviceId ?x = deviceId req"
    and tx: "r_timestamp ?x = now e'"
    using h by (simp_all add: new_reading_def)
  have a0: "num_add A (num_lit A 0) P = P" and a1: "num_add A P (num_lit A 0) = P"
    using h by blast+
  have older: "\<forall>r\<in>set (energyReadings w').
      r_deviceId r = deviceId req \<longrightarrow> r_timestamp r < r_timestamp ?x"
    using h tx by (simp add: of_device_def)
  have win: "recentReadings ?w1 (deviceId req) = ?x # ?prior"
    using older dx by (rule recent_after_insert)
  have "set ?prior \<subseteq> set ?stored"
    using set_take_subset[of 9 "newest_first ?stored"] by (simp add: newest_first_def)
  then have zeros: "\<forall>r\<in>set ?prior. r_power r = num_lit A 0"
    using h by blast
  have len: "Suc (length ?prior) = n"
    using h by (simp add: newest_first_def min_def)
  have "average_power A (?x # ?prior) = num_div A (r_power ?x) (num_lit A (real (Suc (length ?prior))))"
    using a0 a1 by (intro average_power_zero_baseline[OF zeros]) (simp_all only: px)
  then have av: "average_power A (?x # ?prior) = avg"
    using h px len by simp
  have "5 \<le> length (?x # ?prior)"
    using h by (simp add: newest_first_def)
  then have spike: "is_spike A (?x # ?prior) P = num_gt A P thr"
    using av h by (simp add: is_spike_def threshold_for_def)
  have al: "alerts (snd (addEnergyReading A e' w' req))
      = (if num_gt A P thr
         then alerts w' @ [spike_alert A (deviceId req) (d_userId device) P avg]
         else alerts w')"
    using h win spike av
    by (simp add: add_ingested[OF ing] check_alerts creates_alert_def)
  {
    assume "num_gt A P thr"
    then show "\<exists>a. alerts (snd (addEnergyReading A e' w' req)) = alerts w' @ [a]
               \<and> alertType a = ''power_spike''
               \<and> metadata a = \<lparr>currentPower = P, averagePower = avg, threshold = thr\<rparr>"
      using al h by (simp add: spike_alert_def)
  next
    assume "\<not> num_gt A P thr"
    then show "alerts (snd (addEnergyReading A e' w' req)) = alerts w'"
      using al by simp
  }
qed

text \<open>
  Five stored readings of power 0. The spike check with the power 0.01 creates an alert
  with the threshold 0, and with the power 0 it creates none. The ingestion of a reading
  of power 0.75 creates an alert with the mean 0.75 / 6 = 0.125 and the threshold 0.1875,
  and the ingestion of a reading of power 0 creates none.
\<close>

theorem C7_witness:
  "(\<exists>a. alerts (checkForPowerSpike exact env0 (history [0, 0, 0, 0, 0]) ''ESP32_001'' 0.01 7) = [a]
      \<and> metadata a = \<lparr>currentPower = 0.01, averagePower = 0, threshold = 0\<rparr>)
   \<and> alerts (checkForPowerSpike exact env0 (history [0, 0, 0, 0, 0]) ''ESP32_001'' 0 7) = []
   \<and> (\<exists>a. alerts (snd (addEnergyReading exact env0 (history [0, 0, 0, 0, 0]) (ingest 0.75))) = [a]
      \<and> alertType a = ''power_spike''
      \<and> metadata a = \<lparr>currentPower = 0.75, averagePower = 0.125, threshold = 0.1875\<rparr>)
   \<and> alerts (snd (addEnergyReading exact env0 (history [0, 0, 0, 0, 0]) (ingest 0))) = []"
proof -
  let ?w = "history [0, 0, 0, 0, 0]"
  let ?win = "[stored 0 5, stored 0 4, stored 0 3, stored 0 2, stored 0 1]"
  have a: "EnergyReading_find env0 ?w ''ESP32_001'' (Some 10) 0 = Inr ?win
      \<and> Alert_create_rejects env0 = None \<and> 5 \<le> length ?win
      \<and> average_power exact ?win = num_lit exact 0
      \<and> num_mul exact (num_lit exact 0) (num_lit exact (3 / 2)) = num_lit exact 0"
    by (simp add: average_power_def run_defs)
  have b: "ingested env0 ?w (ingest p) meter \<and> EnergyReading_find_rejects env0 = None
        \<and> Alert_create_rejects env0 = None
        \<and> (\<forall>r\<in>set (of_device (deviceId (ingest p)) (energyReadings ?w)).
              r_power r = num_lit exact 0 \<and> r_timestamp r < now env0)
        \<and> 4 \<le> length (of_device (deviceId (ingest p)) (energyReadings ?w))
        \<and> p = num_mul exact (current (ingest p)) (voltage (ingest p))
        \<and> num_add exact (num_lit exact 0) p = p \<and> num_add exact p (num_lit exact 0) = p
        \<and> 6 = min 10 (Suc (length (of_device (deviceId (ingest p)) (energyReadings ?w))))
        \<and> p / 6 = num_div exact p (num_lit exact (real 6))
        \<and> p / 4 = num_mul exact (p / 6) (num_lit exact (3 / 2))" for p
    by (simp add: ingested_def run_defs)
  have g: "num_gt exact 0.01 (num_lit exact 0)" "\<not> num_gt exact 0 (num_lit exact 0)"
    "num_gt exact 0.75 (0.75 / 4)" "\<not> num_gt exact 0 (0 / 4)"
    by (simp_all add: exact_def)
  have z: "num_lit exact 0 = 0"
    by (simp add: exact_def)
  have e: "alerts ?w = []"
    by (simp add: history_def)
  note check = C7_zero_baseline[where A = exact and e = env0 and w = ?w and d = "''ESP32_001''"
      and win = ?win and u = 7, THEN conjunct1, rule_format, OF a]
  note add = C7_zero_baseline[where A = exact and e' = env0 and w' = ?w and device = meter
      and n = 6, THEN conjunct2, rule_format]
  have "\<exists>a. alerts (checkForPowerSpike exact env0 ?w ''ESP32_001'' 0.01 7) = alerts ?w @ [a]
            \<and> alertType a = ''power_spike''
            \<and> metadata a = \<lparr>currentPower = 0.01, averagePower = 0, threshold = 0\<rparr>"
    using check[where p = "0.01"] g(1) by (simp add: z)
  moreover have "alerts (checkForPowerSpike exact env0 ?w ''ESP32_001'' 0 7) = alerts ?w"
    using check[where p = 0] g(2) by simp
  moreover have "\<exists>a. alerts (snd (addEnergyReading exact env0 ?w (ingest 0.75))) = alerts ?w @ [a]
            \<and> alertType a = ''power_spike''
            \<and> metadata a = \<lparr>currentPower = 0.75, averagePower = 0.75 / 6, threshold = 0.75 / 4\<rparr>"
    using add[OF b[of "0.75"]] g(3) by simp
  moreover have "alerts (snd (addEnergyReading exact env0 ?w (ingest 0))) = alerts ?w"
    using add[OF b[of 0]] g(4) by simp
  ultimately show ?thesis
    by (auto simp add: e)
qed

text \<open>
  The claim as it was stated has the mean 0 and the threshold 0 when all the prior readings
  have power 0. After five readings of power 0, the reading of power 0.01 creates an alert,
  but the window holds that reading: in the arithmetic of the reals the mean is
  0.01 / 6 = 1 / 600 and the threshold 1 / 400 (in the doubles, doubles close to these),
  not 0 and 0.
\<close>

theorem C7_counterexample:
  "map metadata
     (alerts (snd (addEnergyReading exact env0 (history [0, 0, 0, 0, 0]) (ingest 0.01))))
     = [\<lparr>currentPower = 1 / 100, averagePower = 1 / 600, threshold = 1 / 400\<rparr>]
   \<and> map metadata
       (alerts (snd (addEnergyReading exact env0 (history [0, 0, 0, 0, 0]) (ingest 0.01))))
     \<noteq> [\<lparr>currentPower = 1 / 100, averagePower = 0, threshold = 0\<rparr>]"
  by (simp add: run_defs)

subsection \<open>C8: the text of an alert\<close>

text \<open>
  C8, as the controller has it. Every alert that a request creates has the kind
  \<open>power_spike\<close> and the severity \<open>high\<close>, and its message is the fixed text around
  \<^verbatim>\<open>currentPower.toFixed(2)\<close> and \<^verbatim>\<open>averagePower.toFixed(2)\<close>. Each of
  the two is formatted to exactly two decimal places when the number is finite and its
  absolute value is below \<open>10^21\<close>.
\<close>

theorem C8_alert_text:
  assumes "addEnergyReading A e w req = (res, w')"
  shows "\<exists>new. alerts w' = alerts w @ new
           \<and> (\<forall>a\<in>set new. alertType a = ''power_spike'' \<and> severity a = ''high''
                  \<and> message a = ''Power spike detected! Current power: ''
                       @ toFixed A (currentPower (metadata a)) 2 @ ''W is 50% above average: ''
                       @ toFixed A (averagePower (metadata a)) 2 @ ''W''
                  \<and> (\<forall>v. num_value A (currentPower (metadata a)) = Finite v \<and> \<bar>v\<bar> < 10 ^ 21
                        \<longrightarrow> two_decimals (toFixed A (currentPower (metadata a)) 2))
                  \<and> (\<forall>v. num_value A (averagePower (metadata a)) = Finite v \<and> \<bar>v\<bar> < 10 ^ 21
                        \<longrightarrow> two_decimals (toFixed A (averagePower (metadata a)) 2)))"
proof (cases "\<exists>device. ingested e w req device")
  case True
  then obtain device where ing: "ingested e w req device" ..
  let ?x = "new_reading A e req device"
  let ?w1 = "w\<lparr>energyReadings := energyReadings w @ [?x]\<rparr>"
  let ?p = "num_mul A (current req) (voltage req)"
  have w': "w' = checkForPowerSpike A e ?w1 (deviceId req) ?p (d_userId device)"
    using assms add_ingested[OF ing] by simp
  show ?thesis
  proof (cases "creates_alert A e ?w1 (deviceId req) ?p")
    case True
    let ?a = "spike_alert A (deviceId req) (d_userId device) ?p
                (average_power A (recentReadings ?w1 (deviceId req)))"
    have "alerts w' = alerts w @ [?a]"
      using True by (simp add: w' check_alerts)
    moreover have "alertType ?a = ''power_spike'' \<and> severity ?a = ''high''
        \<and> message ?a = ''Power spike detected! Current power: ''
             @ toFixed A (currentPower (metadata ?a)) 2 @ ''W is 50% above average: ''
             @ toFixed A (averagePower (metadata ?a)) 2 @ ''W''"
      by (simp add: spike_alert_def)
    ultimately show ?thesis
      using two_decimals_toFixed[of A] by (intro exI[of _ "[?a]"]) auto
  next
    case False
    then have "alerts w' = alerts w @ []"
      by (simp add: w' check_alerts)
    then show ?thesis
      by (intro exI[of _ "[]"]) simp
  qed
next
  case False
  then have "alerts w' = alerts w @ []"
    using add_not_ingested[of e w req A] assms by simp
  then show ?thesis
    by (intro exI[of _ "[]"]) simp
qed

text \<open>The message for the reading of power 200 after five readings of power 100.\<close>

theorem C8_witness:
  "\<exists>a. alerts (snd (addEnergyReading exact env0 (history [100, 100, 100, 100, 100]) (ingest 200))) = [a]
     \<and> alertType a = ''power_spike'' \<and> severity a = ''high''
     \<and> message a = ''Power spike detected! Current power: 200.00W is 50% above average: 116.67W''
     \<and> two_decimals ''200.00'' \<and> two_decimals ''116.67''"
proof -
  let ?run = "addEnergyReading exact env0 (history [100, 100, 100, 100, 100]) (ingest 200)"
  obtain new where n: "alerts (snd ?run) = alerts (history [100, 100, 100, 100, 100]) @ new"
    and p: "\<forall>a\<in>set new. alertType a = ''power_spike'' \<and> severity a = ''high''
                  \<and> message a = ''Power spike detected! Current power: ''
                       @ toFixed exact (currentPower (metadata a)) 2 @ ''W is 50% above average: ''
                       @ toFixed exact (averagePower (metadata a)) 2 @ ''W''
                  \<and> (\<forall>v. num_value exact (currentPower (metadata a)) = Finite v \<and> \<bar>v\<bar> < 10 ^ 21
                        \<longrightarrow> two_decimals (toFixed exact (currentPower (metadata a)) 2))
                  \<and> (\<forall>v. num_value exact (averagePower (metadata a)) = Finite v \<and> \<bar>v\<bar> < 10 ^ 21
                        \<longrightarrow> two_decimals (toFixed exact (averagePower (metadata a)) 2))"
    using C8_alert_text[of exact env0 "history [100, 100, 100, 100, 100]" "ingest 200" "fst ?run" "snd ?run"]
    by auto
  have e: "alerts (history [100, 100, 100, 100, 100]) = []"
    by (simp add: history_def)
  have md: "map metadata (alerts (snd ?run))
      = [\<lparr>currentPower = 200, averagePower = 350 / 3, threshold = 175\<rparr>]"
    by (simp add: run_defs)
  then obtain a where a: "new = [a]"
    using n e by (cases new) simp_all
  have cp: "currentPower (metadata a) = 200" and av: "averagePower (metadata a) = 350 / 3"
    using md n a e by simp_all
  have f1: "toFixed exact 200 2 = ''200.00''" and f2: "toFixed exact (350 / 3) 2 = ''116.67''"
    by (simp_all add: format_defs exact_def Let_def)
  have nv: "num_value exact x = Finite x" for x
    by (simp add: exact_def)
  from p a have pa: "alertType a = ''power_spike'' \<and> severity a = ''high''
      \<and> message a = ''Power spike detected! Current power: ''
           @ toFixed exact 200 2 @ ''W is 50% above average: '' @ toFixed exact (350 / 3) 2 @ ''W''"
    and t1: "\<forall>v. num_value exact (currentPower (metadata a)) = Finite v \<and> \<bar>v\<bar> < 10 ^ 21
                \<longrightarrow> two_decimals (toFixed exact (currentPower (metadata a)) 2)"
    and t2: "\<forall>v. num_value exact (averagePower (metadata a)) = Finite v \<and> \<bar>v\<bar> < 10 ^ 21
                \<longrightarrow> two_decimals (toFixed exact (averagePower (metadata a)) 2)"
    by (simp_all add: cp av)
  have "two_decimals (toFixed exact 200 2)"
    using t1[rule_format, of 200] by (simp add: cp nv)
  moreover have "two_decimals (toFixed exact (350 / 3) 2)"
    using t2[rule_format, of "350 / 3"] by (simp add: av nv)
  ultimately show ?thesis
    using pa n a e by (simp add: f1 f2)
qed

text \<open>
  The claim as it was stated promises two decimal places in every message. From
  \<open>10^21\<close> on, \<^verbatim>\<open>toFixed\<close> answers in exponential notation: a reading of
  power \<open>10^21\<close> after four readings of power 0 creates an alert whose message has
  \<^verbatim>\<open>1e+21\<close> for the current power.
\<close>

theorem C8_counterexample:
  "map message (alerts (snd (addEnergyReading exact env0 (history [0, 0, 0, 0]) (ingest (10 ^ 21)))))
     = [''Power spike detected! Current power: 1e+21W is 50% above average: 200000000000000000000.00W'']
   \<and> toFixed exact (10 ^ 21) 2 = ''1e+21''
   \<and> \<not> two_decimals ''1e+21''"
  by (simp add: run_defs format_defs two_decimals_def fixed2_unsigned_def is_digit_def)

subsection \<open>C9: the decision is a function of the window and the power\<close>

text \<open>
  C9. Take two runs of the spike check, in any two worlds and environments, for any
  devices and owners, in which the fetch and the write of the alert succeed. If the two
  fetched windows carry the same powers in the same order and \<open>currentPower\<close> is the
  same, then one run creates an alert exactly when the other does. In particular, running
  the check again on the world the first run left (no reading is inserted in between)
  fetches the same window and decides the same.
\<close>

theorem C9_decision_from_window_and_power:
  assumes "EnergyReading_find e1 w1 d1 (Some 10) 0 = Inr win1"
    and "EnergyReading_find e2 w2 d2 (Some 10) 0 = Inr win2"
    and "map r_power win1 = map r_power win2"
    and "Alert_create_rejects e1 = None" and "Alert_create_rejects e2 = None"
  shows "(alerts (checkForPowerSpike A e1 w1 d1 p u1) \<noteq> alerts w1)
           = (alerts (checkForPowerSpike A e2 w2 d2 p u2) \<noteq> alerts w2)
       \<and> EnergyReading_find e1 (checkForPowerSpike A e1 w1 d1 p u1) d1 (Some 10) 0 = Inr win1
       \<and> (alerts (checkForPowerSpike A e1 (checkForPowerSpike A e1 w1 d1 p u1) d1 p u1)
             \<noteq> alerts (checkForPowerSpike A e1 w1 d1 p u1))
           = (alerts (checkForPowerSpike A e1 w1 d1 p u1) \<noteq> alerts w1)"
proof -
  have f1: "EnergyReading_find_rejects e1 = None" and r1: "recentReadings w1 d1 = win1"
    using assms(1) by (simp_all add: find_recent split: option.splits)
  have f2: "EnergyReading_find_rejects e2 = None" and r2: "recentReadings w2 d2 = win2"
    using assms(2) by (simp_all add: find_recent split: option.splits)
  have dec: "(alerts (checkForPowerSpike A e w d p u) \<noteq> alerts w) = is_spike A (recentReadings w d) p"
    if "EnergyReading_find_rejects e = None" and "Alert_create_rejects e = None" for e w d u
    using that by (simp add: check_alerts creates_alert_def)
  have same: "recentReadings (checkForPowerSpike A e1 w1 d1 p u1) d1 = win1"
    using r1 by (simp add: recentReadings_def check_energyReadings)
  have "is_spike A win1 p = is_spike A win2 p"
    using assms(3) by (rule is_spike_powers)
  then show ?thesis
    using dec[OF f1 assms(4)] dec[OF f2 assms(5)] r1 r2 same f1
    by (simp add: find_recent)
qed

text \<open>
  The check with the power 200 on five stored readings of power 100: in a second world
  with another owner, and run a second time.
\<close>

theorem C9_witness:
  "alerts (checkForPowerSpike exact env0 (history [100, 100, 100, 100, 100]) ''ESP32_001'' 200 7) \<noteq> []
   \<and> (alerts (checkForPowerSpike exact env0 ((history [100, 100, 100, 100, 100])\<lparr>users := []\<rparr>) ''ESP32_001'' 200 8)
        \<noteq> alerts ((history [100, 100, 100, 100, 100])\<lparr>users := []\<rparr>))
   \<and> (alerts (checkForPowerSpike exact env0
          (checkForPowerSpike exact env0 (history [100, 100, 100, 100, 100]) ''ESP32_001'' 200 7)
          ''ESP32_001'' 200 7)
        \<noteq> alerts (checkForPowerSpike exact env0 (history [100, 100, 100, 100, 100]) ''ESP32_001'' 200 7))"
proof -
  let ?w = "history [100, 100, 100, 100, 100]"
  let ?win = "[stored 100 5, stored 100 4, stored 100 3, stored 100 2, stored 100 1]"
  have 1: "EnergyReading_find env0 ?w ''ESP32_001'' (Some 10) 0 = Inr ?win"
    by (simp add: run_defs)
  have 2: "EnergyReading_find env0 (?w\<lparr>users := []\<rparr>) ''ESP32_001'' (Some 10) 0 = Inr ?win"
    by (simp add: run_defs)
  have 3: "Alert_create_rejects env0 = None"
    by (simp add: env0_def)
  have d: "alerts (checkForPowerSpike exact env0 ?w ''ESP32_001'' 200 7) \<noteq> alerts ?w"
    by (simp add: run_defs)
  have e: "alerts ?w = []"
    by (simp add: history_def)
  show ?thesis
    using C9_decision_from_window_and_power[OF 1 2 refl 3 3, of exact 200 7 8] d e
    by simp
qed

subsection \<open>C10: the listing\<close>

text \<open>
  C10, as the controller has it. For every device, and for whole-number parameters
  \<open>limit\<close> and \<open>page\<close> (100 and 1 when absent) that are both at least 1, when the two
  queries succeed: the answer is 200 and holds the readings of the device, newest first,
  without the first \<open>(page - 1) * limit\<close> and cut to at most \<open>limit\<close>; \<open>count\<close> is
  the number of readings returned and \<open>total\<close> the number of readings stored for the
  device. The world is unchanged.
\<close>

theorem C10_listing:
  assumes "EnergyReading_find_rejects e = None"
    and "EnergyReading_countDocuments_rejects e = None"
    and "limit = (case query_limit req of None \<Rightarrow> 100 | Some l \<Rightarrow> l)"
    and "page = (case query_page req of None \<Rightarrow> 1 | Some p \<Rightarrow> p)"
    and "1 \<le> limit" and "1 \<le> page"
    and "sorted_all = newest_first (of_device (params_deviceId req) (energyReadings w))"
    and "readings = take (nat limit) (drop (nat ((page - 1) * limit)) sorted_all)"
  shows "getEnergyReadings e w req
           = (\<lparr>status = 200, json = Listing (length readings) (length sorted_all) readings\<rparr>, w)
       \<and> length readings \<le> nat limit
       \<and> sorted_wrt (\<lambda>a b. r_timestamp b \<le> r_timestamp a) readings
       \<and> (\<forall>r\<in>set readings. r_deviceId r = params_deviceId req \<and> r \<in> set (energyReadings w))
       \<and> length sorted_all
           = length (filter (\<lambda>r. r_deviceId r = params_deviceId req) (energyReadings w))"
proof -
  have skip: "\<not> (page - 1) * limit < 0"
    using assms(5,6) by (simp add: mult_less_0_iff)
  have run: "getEnergyReadings e w req
           = (\<lparr>status = 200, json = Listing (length readings) (length sorted_all) readings\<rparr>, w)"
    using assms(1,2,5) skip
    unfolding assms(3,4,7,8)
    by (simp add: getEnergyReadings_def EnergyReading_find_def EnergyReading_countDocuments_def
        apply_limit_def newest_first_def Let_def)
  have "sorted (map (\<lambda>r. - r_timestamp r) sorted_all)"
    unfolding assms(7) newest_first_def by (rule sorted_sort_key)
  then have "sorted_wrt (\<lambda>a b. r_timestamp b \<le> r_timestamp a) sorted_all"
    by (simp add: sorted_map)
  then have srt: "sorted_wrt (\<lambda>a b. r_timestamp b \<le> r_timestamp a) readings"
    unfolding assms(8) by (intro sorted_wrt_take sorted_wrt_drop)
  have "set readings \<subseteq> set sorted_all"
    unfolding assms(8) by (meson set_take_subset set_drop_subset subset_trans)
  then have mem: "\<forall>r\<in>set readings. r_deviceId r = params_deviceId req \<and> r \<in> set (energyReadings w)"
    unfolding assms(7) by (auto simp add: newest_first_def of_device_def)
  have tot: "length sorted_all
      = length (filter (\<lambda>r. r_deviceId r = params_deviceId req) (energyReadings w))"
    unfolding assms(7) by (simp add: newest_first_def of_device_def)
  have "length readings \<le> nat limit"
    unfolding assms(8) by simp
  with run srt mem tot show ?thesis
    by simp
qed

text \<open>Three stored readings: the second page of pages of two, and the defaults.\<close>

theorem C10_witness:
  "getEnergyReadings env0 (history [1, 2, 3]) (listing (Some 2) (Some 2))
     = (\<lparr>status = 200, json = Listing 1 3 [stored 1 1]\<rparr>, history [1, 2, 3])
   \<and> getEnergyReadings env0 (history [1, 2, 3]) (listing None None)
     = (\<lparr>status = 200, json = Listing 3 3 [stored 3 3, stored 2 2, stored 1 1]\<rparr>, history [1, 2, 3])"
proof -
  have s: "newest_first (of_device ''ESP32_001'' (energyReadings (history [1, 2, 3])))
      = [stored 3 3, stored 2 2, stored 1 1]"
    by (simp add: run_defs)
  have r: "EnergyReading_find_rejects env0 = None"
    and c: "EnergyReading_countDocuments_rejects env0 = None"
    by (simp_all add: env0_def)
  have a: "getEnergyReadings env0 (history [1, 2, 3]) (listing (Some 2) (Some 2))
     = (\<lparr>status = 200, json = Listing 1 3 [stored 1 1]\<rparr>, history [1, 2, 3])"
    using C10_listing[OF r c refl refl _ _ refl refl, of "listing (Some 2) (Some 2)" "history [1, 2, 3]"]
    by (simp add: listing_def s)
  have b: "getEnergyReadings env0 (history [1, 2, 3]) (listing None None)
     = (\<lparr>status = 200, json = Listing 3 3 [stored 3 3, stored 2 2, stored 1 1]\<rparr>, history [1, 2, 3])"
    using C10_listing[OF r c refl refl _ _ refl refl, of "listing None None" "history [1, 2, 3]"]
    by (simp add: listing_def s)
  from a b show ?thesis ..
qed

text \<open>
  The claim as it was stated promises at most \<open>limit\<close> readings for every \<open>limit\<close>.
  A limit of 0 is no limit to MongoDB: with three stored readings and
  \<^verbatim>\<open>limit=0\<close> the answer holds all three.
\<close>

theorem C10_counterexample:
  "fst (getEnergyReadings env0 (history [1, 2, 3]) (listing (Some 0) None))
     = \<lparr>status = 200, json = Listing 3 3 [stored 3 3, stored 2 2, stored 1 1]\<rparr>"
  by (simp add: getEnergyReadings_def EnergyReading_countDocuments_def listing_def run_defs)

end
